theory Spec2Isabelle
  imports Complex_Main
begin

section \<open>Numbers, vectors and the helpers of the 3-D library\<close>

text \<open>
  JavaScript numbers are IEEE binary64 values. They are modelled as real numbers:
  timestamps (milliseconds), frame deltas (seconds), cooldowns, offsets and coordinates
  are all of type \<open>real\<close>. The cooldown update, whose behaviour under different frame
  rates turns on rounding, is modelled with the rounded operations \<open>double_mul\<close> and
  \<open>double_sub\<close> below; the other computations are modelled in exact arithmetic.
  Infinities and NaN are outside this model.
\<close>

record Vector3 =
  vx :: real
  vy :: real
  vz :: real

record Euler =
  ex :: real
  ey :: real
  ez :: real

text \<open>\<open>new Vector3().subVectors(a, b)\<close>, \<open>v.multiplyScalar(k)\<close>, \<open>v.add(w)\<close>,
  \<open>v.length()\<close> and \<open>v.normalize()\<close>, the last one written as the library does:
  \<open>divideScalar(length() || 1)\<close>, so that the zero vector stays the zero vector.\<close>

definition subVectors :: "Vector3 \<Rightarrow> Vector3 \<Rightarrow> Vector3" where
  "subVectors a b = \<lparr>vx = vx a - vx b, vy = vy a - vy b, vz = vz a - vz b\<rparr>"

definition multiplyScalar :: "Vector3 \<Rightarrow> real \<Rightarrow> Vector3" where
  "multiplyScalar v k = \<lparr>vx = vx v * k, vy = vy v * k, vz = vz v * k\<rparr>"

definition addVector :: "Vector3 \<Rightarrow> Vector3 \<Rightarrow> Vector3" where
  "addVector v w = \<lparr>vx = vx v + vx w, vy = vy v + vy w, vz = vz v + vz w\<rparr>"

definition vlength :: "Vector3 \<Rightarrow> real" where
  "vlength v = sqrt (vx v * vx v + vy v * vy v + vz v * vz v)"

definition normalize :: "Vector3 \<Rightarrow> Vector3" where
  "normalize v = multiplyScalar v (1 / (if vlength v = 0 then 1 else vlength v))"

text \<open>\<open>MathUtils.clamp(value, min, max)\<close> and \<open>MathUtils.lerp(x, y, t)\<close>.\<close>

definition clamp :: "real \<Rightarrow> real \<Rightarrow> real \<Rightarrow> real" where
  "clamp v lo hi = max lo (min hi v)"

definition lerp :: "real \<Rightarrow> real \<Rightarrow> real \<Rightarrow> real" where
  "lerp a b t = (1 - t) * a + t * b"

section \<open>Binary64 rounding\<close>

text \<open>Rounding of a real number to the nearest binary64 value, ties to even. The
  magnitude is brought to a significand \<open>m\<close> with \<open>2^52 \<le> m < 2^53\<close> and an exponent \<open>e\<close>
  such that the magnitude is \<open>m * 2^e\<close>; \<open>e\<close> is not taken below -1074, the exponent of
  the smallest subnormal. The significand is then rounded to an integer. The counter
  \<open>n\<close> bounds the number of halvings and doublings; 2200 of them reach every finite
  binary64 magnitude from exponent 0. A result beyond the largest finite binary64 value
  (an infinity in the program) is outside the model.\<close>

definition roundHalfEven :: "real \<Rightarrow> int" where
  "roundHalfEven m =
     (let f = \<lfloor>m\<rfloor>; r = m - of_int f
      in if r < 1 / 2 then f else if 1 / 2 < r then f + 1 else if even f then f else f + 1)"

fun scale :: "nat \<Rightarrow> real \<Rightarrow> int \<Rightarrow> real \<times> int" where
  "scale n m e =
     (if n = 0 then (m, e)
      else if 9007199254740992 \<le> m then scale (n - 1) (m / 2) (e + 1)
      else if m < 4503599627370496 \<and> - 1074 < e then scale (n - 1) (m * 2) (e - 1)
      else (m, e))"

declare scale.simps [simp del]

definition pow2 :: "int \<Rightarrow> real" where
  "pow2 e = (if 0 \<le> e then 2 ^ nat e else 1 / 2 ^ nat (- e))"

definition fl :: "real \<Rightarrow> real" where
  "fl x =
     (if x = 0 then 0
      else (case scale 2200 \<bar>x\<bar> 0 of
              (m, e) \<Rightarrow> sgn x * of_int (roundHalfEven m) * pow2 e))"

text \<open>The binary64 product and difference: the exact result, rounded.\<close>

definition double_mul :: "real \<Rightarrow> real \<Rightarrow> real" where
  "double_mul a b = fl (a * b)"

definition double_sub :: "real \<Rightarrow> real \<Rightarrow> real" where
  "double_sub a b = fl (a - b)"

section \<open>CONFIG\<close>

definition MOVE_SPEED :: real where "MOVE_SPEED = 8"
definition MOVE_BOUNDS_x :: real where "MOVE_BOUNDS_x = 12"
definition MOVE_BOUNDS_y :: real where "MOVE_BOUNDS_y = 8"
definition FORWARD_SPEED :: real where "FORWARD_SPEED = 15"
definition BOOST_SPEED :: real where "BOOST_SPEED = 35"
definition BOOST_DURATION :: real where "BOOST_DURATION = 2000"
definition BOOST_COOLDOWN :: real where "BOOST_COOLDOWN = 5000"
definition DODGE_DURATION :: real where "DODGE_DURATION = 600"
definition DODGE_COOLDOWN :: real where "DODGE_COOLDOWN = 3000"
definition DODGE_AGILITY_MULT :: real where "DODGE_AGILITY_MULT = 18 / 10"
definition FIRE_RATE :: real where "FIRE_RATE = 100"
definition PROJECTILE_SPEED :: real where "PROJECTILE_SPEED = 80"
definition PROJECTILE_LIFETIME :: real where "PROJECTILE_LIFETIME = 2000"
definition SHIP_TILT_FACTOR :: real where "SHIP_TILT_FACTOR = 3 / 10"
definition RETICLE_DISTANCE :: real where "RETICLE_DISTANCE = 50"

section \<open>useInputManager: the merged input\<close>

text \<open>The three raw sources: the \<open>keys\<close> state (keyboard and left mouse button), the
  \<open>mouse\<close> state and the last polled gamepad sample (\<open>gamepadRef.current\<close>). A button
  the gamepad does not report reads \<open>undefined\<close>, which \<open>||\<close> treats as false.\<close>

record keys =
  key_up :: bool
  key_down :: bool
  key_left :: bool
  key_right :: bool
  key_boost :: bool
  key_dodge :: bool
  key_fire :: bool

record mouse =
  mouse_x :: real
  mouse_y :: real

record stick =
  sx :: real
  sy :: real

record gamepad =
  leftStick :: stick
  rightStick :: stick
  btn_boost :: bool
  btn_dodge :: bool
  btn_fire :: bool

record InputState =
  moveX :: real
  moveY :: real
  aimX :: real
  aimY :: real
  boost :: bool
  dodge :: bool
  fire :: bool

text \<open>\<open>handleMouseMove\<close>: the pointer in viewport-relative coordinates.\<close>

definition handleMouseMove :: "real \<Rightarrow> real \<Rightarrow> real \<Rightarrow> real \<Rightarrow> mouse" where
  "handleMouseMove clientX clientY innerWidth innerHeight =
     \<lparr>mouse_x = (clientX / innerWidth) * 2 - 1,
      mouse_y = - (clientY / innerHeight) * 2 + 1\<rparr>"

text \<open>\<open>a || b\<close> on numbers: \<open>a\<close> when it is not zero, else \<open>b\<close>.\<close>

definition num_or :: "real \<Rightarrow> real \<Rightarrow> real" where
  "num_or a b = (if a \<noteq> 0 then a else b)"

definition deadzone :: real where "deadzone = 15 / 100"

definition applyDeadzone :: "real \<Rightarrow> real" where
  "applyDeadzone val = (if \<bar>val\<bar> < deadzone then 0 else val)"

definition keysX :: "keys \<Rightarrow> real" where
  "keysX k = (if key_left k then - 1 else if key_right k then 1 else 0)"

definition keysY :: "keys \<Rightarrow> real" where
  "keysY k = (if key_up k then 1 else if key_down k then - 1 else 0)"

definition useInputManager :: "keys \<Rightarrow> mouse \<Rightarrow> gamepad \<Rightarrow> InputState" where
  "useInputManager k m gp =
     \<lparr>moveX = num_or (applyDeadzone (num_or (sx (leftStick gp)) 0)) (keysX k),
      moveY = num_or (applyDeadzone (- (num_or (sy (leftStick gp)) 0))) (keysY k),
      aimX = num_or (applyDeadzone (num_or (sx (rightStick gp)) 0)) (mouse_x m),
      aimY = num_or (applyDeadzone (- (num_or (sy (rightStick gp)) 0))) (mouse_y m),
      boost = (key_boost k \<or> btn_boost gp \<or> False),
      dodge = (key_dodge k \<or> btn_dodge gp \<or> False),
      fire = (key_fire k \<or> btn_fire gp \<or> False)\<rparr>"

section \<open>createLevelSpline\<close>

text \<open>The curve object. The constructor of the 3-D library's \<open>CatmullRomCurve3\<close> stores
  its four arguments and checks nothing; \<open>createLevelSpline\<close> has no parameter and
  passes its ten fixed control points. Construction is given the result type of a
  fallible operation so that a failure could be expressed; the source has no failing
  branch.\<close>

datatype path_error = InvalidPathError

record CatmullRomCurve3 =
  points :: "Vector3 list"
  closed :: bool
  curveType :: string
  tension :: real

definition new_CatmullRomCurve3 ::
    "Vector3 list \<Rightarrow> bool \<Rightarrow> string \<Rightarrow> real \<Rightarrow> path_error + CatmullRomCurve3" where
  "new_CatmullRomCurve3 ps c ty t = Inr \<lparr>points = ps, closed = c, curveType = ty, tension = t\<rparr>"

definition levelPoints :: "Vector3 list" where
  "levelPoints =
     [\<lparr>vx = 0, vy = 0, vz = 0\<rparr>,
      \<lparr>vx = 0, vy = 2, vz = - 100\<rparr>,
      \<lparr>vx = 10, vy = 5, vz = - 200\<rparr>,
      \<lparr>vx = - 5, vy = 3, vz = - 300\<rparr>,
      \<lparr>vx = 0, vy = 8, vz = - 400\<rparr>,
      \<lparr>vx = 15, vy = 4, vz = - 500\<rparr>,
      \<lparr>vx = - 10, vy = 6, vz = - 600\<rparr>,
      \<lparr>vx = 0, vy = 2, vz = - 700\<rparr>,
      \<lparr>vx = 5, vy = 10, vz = - 800\<rparr>,
      \<lparr>vx = 0, vy = 5, vz = - 1000\<rparr>]"

definition createLevelSpline :: "path_error + CatmullRomCurve3" where
  "createLevelSpline = new_CatmullRomCurve3 levelPoints False ''catmullrom'' (1 / 2)"

section \<open>GameController: state\<close>

text \<open>An entry of the \<open>projectiles\<close> list together with the state of the \<open>Projectile\<close>
  component React mounts for it: \<open>pid\<close>, \<open>position\<close> and \<open>direction\<close> are the fields of
  \<open>newProjectile\<close>; \<open>meshPosition\<close> is the position of the component's mesh and
  \<open>startTime\<close> its \<open>startTime\<close> ref, \<open>None\<close> until the component has been rendered for
  the first time (\<open>useRef(Date.now())\<close> reads the clock at that render).\<close>

record projectile =
  pid :: real
  position :: Vector3
  direction :: Vector3
  meshPosition :: Vector3
  startTime :: "real option"

record offset =
  ox :: real
  oy :: real

text \<open>The \<open>useState\<close> cells and the refs of \<open>GameController\<close>.\<close>

record game_state =
  splineProgress :: real
  localOffset :: offset
  projectiles :: "projectile list"
  boostCooldown :: real
  boostActive :: bool
  dodgeCooldown :: real
  isRolling :: bool
  rollProgress :: real
  isInvulnerable :: bool
  currentSpeed :: real
  lastFireTime :: real
  boostStartTime :: real
  dodgeStartTime :: real
  shipRotation :: Euler
  targetRotation :: Euler

definition initialState :: game_state where
  "initialState =
     \<lparr>splineProgress = 0,
      localOffset = \<lparr>ox = 0, oy = 0\<rparr>,
      projectiles = [],
      boostCooldown = 0,
      boostActive = False,
      dodgeCooldown = 0,
      isRolling = False,
      rollProgress = 0,
      isInvulnerable = False,
      currentSpeed = FORWARD_SPEED,
      lastFireTime = 0,
      boostStartTime = 0,
      dodgeStartTime = 0,
      shipRotation = \<lparr>ex = 0, ey = pi, ez = 0\<rparr>,
      targetRotation = \<lparr>ex = 0, ey = pi, ez = 0\<rparr>\<rparr>"

text \<open>What one animation frame reads from outside: the clock at the start of the game
  loop (\<open>now\<close>), the frame delta in seconds, the merged input, the clock read inside
  \<open>fireProjectile\<close>, the value of \<open>Math.random()\<close> there, the clock read by the
  \<open>Projectile\<close> callbacks and the clock at the render that follows.\<close>

record frame =
  now :: real
  delta :: real
  input :: InputState
  fireNow :: real
  rnd :: real
  projNow :: real
  renderNow :: real

section \<open>GameController: derived positions\<close>

text \<open>The curve enters through its two methods: \<open>getPointAt\<close> (a function from the
  fraction to a point) and \<open>getLength()\<close> (a number).\<close>

definition splineSample :: "game_state \<Rightarrow> real" where
  "splineSample c = min (splineProgress c) (999 / 1000)"

definition splinePosition :: "(real \<Rightarrow> Vector3) \<Rightarrow> game_state \<Rightarrow> Vector3" where
  "splinePosition getPointAt c = getPointAt (splineSample c)"

definition shipPosition :: "(real \<Rightarrow> Vector3) \<Rightarrow> game_state \<Rightarrow> Vector3" where
  "shipPosition getPointAt c =
     \<lparr>vx = vx (splinePosition getPointAt c) + ox (localOffset c),
      vy = vy (splinePosition getPointAt c) + oy (localOffset c),
      vz = vz (splinePosition getPointAt c)\<rparr>"

definition reticlePosition :: "(real \<Rightarrow> Vector3) \<Rightarrow> InputState \<Rightarrow> game_state \<Rightarrow> Vector3" where
  "reticlePosition getPointAt inp c =
     \<lparr>vx = vx (shipPosition getPointAt c) + aimX inp * 15,
      vy = vy (shipPosition getPointAt c) + aimY inp * 10,
      vz = vz (shipPosition getPointAt c) - RETICLE_DISTANCE\<rparr>"

section \<open>GameController: firing\<close>

definition fireProjectile :: "Vector3 \<Rightarrow> Vector3 \<Rightarrow> real \<Rightarrow> real \<Rightarrow> game_state \<Rightarrow> game_state" where
  "fireProjectile ship reticle t r s =
     (if t - lastFireTime s < FIRE_RATE then s
      else s\<lparr>lastFireTime := t,
             projectiles := projectiles s @
               [\<lparr>pid = t + r, position = ship,
                 direction = normalize (subVectors reticle ship),
                 meshPosition = ship, startTime = None\<rparr>]\<rparr>)"

definition removeProjectile :: "real \<Rightarrow> projectile list \<Rightarrow> projectile list" where
  "removeProjectile i prev = filter (\<lambda>p. pid p \<noteq> i) prev"

section \<open>GameController: the game loop\<close>

text \<open>The callback closes over the state of the last render (\<open>c\<close>); the setters queue
  updates that are applied in order to the pending state (\<open>s\<close>). A test such as
  \<open>boostCooldown > 0\<close> reads \<open>c\<close>; an updater \<open>prev => ...\<close> reads \<open>s\<close>; refs are read
  and written in \<open>s\<close>.\<close>

definition updateCooldowns :: "frame \<Rightarrow> game_state \<Rightarrow> game_state \<Rightarrow> game_state" where
  "updateCooldowns f c s =
     (let s1 = (if boostCooldown c > 0
                then s\<lparr>boostCooldown :=
                         max 0 (double_sub (boostCooldown s) (double_mul (delta f) 1000))\<rparr>
                else s)
      in if dodgeCooldown c > 0
         then s1\<lparr>dodgeCooldown :=
                  max 0 (double_sub (dodgeCooldown s1) (double_mul (delta f) 1000))\<rparr>
         else s1)"

definition handleBoost :: "frame \<Rightarrow> game_state \<Rightarrow> game_state \<Rightarrow> game_state" where
  "handleBoost f c s =
     (let s1 = (if boost (input f) \<and> boostCooldown c = 0 \<and> \<not> boostActive c
                then s\<lparr>boostActive := True, boostStartTime := now f\<rparr> else s)
      in if boostActive c
         then (if now f - boostStartTime s1 > BOOST_DURATION
               then s1\<lparr>boostActive := False, boostCooldown := BOOST_COOLDOWN\<rparr> else s1)
         else s1)"

definition handleDodge :: "frame \<Rightarrow> game_state \<Rightarrow> game_state \<Rightarrow> game_state" where
  "handleDodge f c s =
     (let s1 = (if dodge (input f) \<and> dodgeCooldown c = 0 \<and> \<not> isRolling c
                then s\<lparr>isRolling := True, isInvulnerable := True,
                       dodgeStartTime := now f, rollProgress := 0\<rparr> else s)
      in if isRolling c
         then (let rollElapsed = now f - dodgeStartTime s1;
                   progress = min (rollElapsed / DODGE_DURATION) 1;
                   s2 = s1\<lparr>rollProgress := progress\<rparr>
               in if progress \<ge> 1
                  then s2\<lparr>isRolling := False, isInvulnerable := False,
                          dodgeCooldown := DODGE_COOLDOWN\<rparr>
                  else s2)
         else s1)"

definition speedOf :: "game_state \<Rightarrow> real" where
  "speedOf c = (if boostActive c then BOOST_SPEED else FORWARD_SPEED)"

definition updateSplineProgress :: "real \<Rightarrow> frame \<Rightarrow> game_state \<Rightarrow> game_state \<Rightarrow> game_state" where
  "updateSplineProgress splineLength f c s =
     (let speed = speedOf c;
          s1 = s\<lparr>currentSpeed := speed\<rparr>;
          progressDelta = (speed * delta f) / splineLength;
          next = splineProgress s1 + progressDelta
      in s1\<lparr>splineProgress := (if next \<ge> 1 then 0 else next)\<rparr>)"

definition updateLocalOffset :: "frame \<Rightarrow> game_state \<Rightarrow> game_state \<Rightarrow> game_state" where
  "updateLocalOffset f c s =
     (let agilityMult = (if isRolling c then DODGE_AGILITY_MULT else 1)
      in s\<lparr>localOffset :=
            \<lparr>ox = clamp (ox (localOffset s) + moveX (input f) * MOVE_SPEED * delta f * agilityMult)
                    (- MOVE_BOUNDS_x) MOVE_BOUNDS_x,
             oy = clamp (oy (localOffset s) + moveY (input f) * MOVE_SPEED * delta f * agilityMult)
                    (- MOVE_BOUNDS_y) MOVE_BOUNDS_y\<rparr>\<rparr>)"

definition updateShipRotation :: "frame \<Rightarrow> game_state \<Rightarrow> game_state" where
  "updateShipRotation f s =
     (let s1 = s\<lparr>targetRotation :=
                  \<lparr>ex = - moveY (input f) * SHIP_TILT_FACTOR, ey = pi,
                   ez = moveX (input f) * SHIP_TILT_FACTOR * (15 / 10)\<rparr>\<rparr>;
          s2 = s1\<lparr>shipRotation := (shipRotation s1)
                  \<lparr>ex := lerp (ex (shipRotation s1)) (ex (targetRotation s1)) (1 / 10)\<rparr>\<rparr>
      in s2\<lparr>shipRotation := (shipRotation s2)
             \<lparr>ez := lerp (ez (shipRotation s2)) (ez (targetRotation s2)) (1 / 10)\<rparr>\<rparr>)"

definition handleFiring :: "(real \<Rightarrow> Vector3) \<Rightarrow> frame \<Rightarrow> game_state \<Rightarrow> game_state \<Rightarrow> game_state" where
  "handleFiring getPointAt f c s =
     (if fire (input f)
      then fireProjectile (shipPosition getPointAt c) (reticlePosition getPointAt (input f) c)
             (fireNow f) (rnd f) s
      else s)"

definition gameLoop :: "(real \<Rightarrow> Vector3) \<Rightarrow> real \<Rightarrow> frame \<Rightarrow> game_state \<Rightarrow> game_state" where
  "gameLoop getPointAt splineLength f c =
     handleFiring getPointAt f c
       (updateShipRotation f
         (updateLocalOffset f c
           (updateSplineProgress splineLength f c
             (handleDodge f c
               (handleBoost f c
                 (updateCooldowns f c c))))))"

section \<open>Projectile: the per-frame callback\<close>

text \<open>The callback of one mounted \<open>Projectile\<close>: it moves the mesh along the direction
  and reports the identifier to \<open>onExpire\<close> when the age is greater than the lifetime.
  A component that is not mounted yet has no callback.\<close>

definition Projectile_useFrame :: "real \<Rightarrow> real \<Rightarrow> projectile \<Rightarrow> projectile \<times> real option" where
  "Projectile_useFrame t d p =
     (case startTime p of
        None \<Rightarrow> (p, None)
      | Some t0 \<Rightarrow>
          (p\<lparr>meshPosition :=
               addVector (meshPosition p) (multiplyScalar (direction p) (PROJECTILE_SPEED * d))\<rparr>,
           if t - t0 > PROJECTILE_LIFETIME then Some (pid p) else None))"

text \<open>The identifiers reported by the callbacks of the mounted projectiles, in list
  order.\<close>

definition expiredIds :: "real \<Rightarrow> real \<Rightarrow> projectile list \<Rightarrow> real list" where
  "expiredIds t d ps = List.map_filter (\<lambda>p. snd (Projectile_useFrame t d p)) ps"

text \<open>All \<open>Projectile\<close> callbacks of one frame on a list: every mesh is moved, then each
  reported identifier goes through \<open>removeProjectile\<close>. The callbacks are those of the
  components mounted at the last render (\<open>mounted\<close>); the removals are queued after
  whatever the game loop appended (\<open>pending\<close>).\<close>

definition projectileCallbacks ::
    "real \<Rightarrow> real \<Rightarrow> projectile list \<Rightarrow> projectile list \<Rightarrow> projectile list" where
  "projectileCallbacks t d mounted pending =
     foldl (\<lambda>prev i. removeProjectile i prev)
       (map (\<lambda>p. fst (Projectile_useFrame t d p)) pending)
       (expiredIds t d mounted)"

text \<open>The render after the frame mounts a component for every new entry; its
  \<open>startTime\<close> is the clock at that render.\<close>

definition mountProjectile :: "real \<Rightarrow> projectile \<Rightarrow> projectile" where
  "mountProjectile t p = (case startTime p of None \<Rightarrow> p\<lparr>startTime := Some t\<rparr> | Some _ \<Rightarrow> p)"

text \<open>Every render passes \<open>position={proj.position.clone()}\<close>, a new vector each time, so
  the renderer copies the spawn position onto the mesh again.\<close>

definition renderProjectile :: "real \<Rightarrow> projectile \<Rightarrow> projectile" where
  "renderProjectile t p = (mountProjectile t p)\<lparr>meshPosition := position p\<rparr>"

section \<open>One animation frame, and runs of frames\<close>

definition animationFrame :: "(real \<Rightarrow> Vector3) \<Rightarrow> real \<Rightarrow> frame \<Rightarrow> game_state \<Rightarrow> game_state" where
  "animationFrame getPointAt splineLength f c =
     (let s = gameLoop getPointAt splineLength f c;
          s1 = s\<lparr>projectiles := projectileCallbacks (projNow f) (delta f) (projectiles c) (projectiles s)\<rparr>
      in s1\<lparr>projectiles := map (renderProjectile (renderNow f)) (projectiles s1)\<rparr>)"

definition run :: "(real \<Rightarrow> Vector3) \<Rightarrow> real \<Rightarrow> frame list \<Rightarrow> game_state \<Rightarrow> game_state" where
  "run getPointAt splineLength fs c = foldl (\<lambda>s f. animationFrame getPointAt splineLength f s) c fs"

section \<open>The state reported to onStateUpdate\<close>

text \<open>The object literal handed to the optional \<open>onStateUpdate\<close> callback, as the list
  of its keys and values; \<open>None\<close> when no callback was given.\<close>

datatype js_value = Num real | Bool bool | Vec Vector3

definition reportState ::
    "bool \<Rightarrow> (real \<Rightarrow> Vector3) \<Rightarrow> game_state \<Rightarrow> (string \<times> js_value) list option" where
  "reportState onStateUpdate getPointAt c =
     (if onStateUpdate
      then Some [(''position'', Vec (shipPosition getPointAt c)),
                 (''isInvulnerable'', Bool (isInvulnerable c)),
                 (''boostActive'', Bool (boostActive c)),
                 (''speed'', Num (currentSpeed c))]
      else None)"

section \<open>Auxiliary definitions for the proofs\<close>

text \<open>The invariant of the ability state that every run from the initial state keeps.\<close>

definition abilityInv :: "game_state \<Rightarrow> bool" where
  "abilityInv s =
     ((isInvulnerable s = isRolling s) \<and>
      (boostActive s \<longrightarrow> boostCooldown s = 0) \<and>
      (isRolling s \<longrightarrow> dodgeCooldown s = 0) \<and>
      0 \<le> boostCooldown s \<and> 0 \<le> dodgeCooldown s)"

text \<open>Concrete inputs for the examples: an input with nothing pressed, a frame at sixty
  frames per second whose clocks all read \<open>t\<close>, and a straight path.\<close>

definition idleInput :: InputState where
  "idleInput = \<lparr>moveX = 0, moveY = 0, aimX = 0, aimY = 0,
                 boost = False, dodge = False, fire = False\<rparr>"

definition sampleFrame :: "real \<Rightarrow> real \<Rightarrow> InputState \<Rightarrow> frame" where
  "sampleFrame t d inp =
     \<lparr>now = t, delta = d, input = inp, fireNow = t, rnd = 1 / 2, projNow = t, renderNow = t\<rparr>"

definition straightPath :: "real \<Rightarrow> Vector3" where
  "straightPath u = \<lparr>vx = 0, vy = 0, vz = - (1000 * u)\<rparr>"


text \<open>The invariant of the projectile list: every identifier is below the last fire
  time plus one, and no identifier occurs twice.\<close>

definition projInv :: "game_state \<Rightarrow> bool" where
  "projInv s =
     ((\<forall>p \<in> set (projectiles s). pid p < lastFireTime s + 1) \<and>
      distinct (map pid (projectiles s)))"

text \<open>The age test of the \<open>Projectile\<close> callback.\<close>

definition expired :: "real \<Rightarrow> projectile \<Rightarrow> bool" where
  "expired t p = (case startTime p of None \<Rightarrow> False | Some t0 \<Rightarrow> t - t0 > PROJECTILE_LIFETIME)"

text \<open>Concrete raw inputs for the examples: no key held, a gamepad at rest.\<close>

definition noKeys :: keys where
  "noKeys = \<lparr>key_up = False, key_down = False, key_left = False, key_right = False,
             key_boost = False, key_dodge = False, key_fire = False\<rparr>"

definition restingGamepad :: gamepad where
  "restingGamepad = \<lparr>leftStick = \<lparr>sx = 0, sy = 0\<rparr>, rightStick = \<lparr>sx = 0, sy = 0\<rparr>,
                      btn_boost = False, btn_dodge = False, btn_fire = False\<rparr>"

section \<open>Facts about the configuration and the steps of the game loop\<close>

lemmas CONFIG_defs =
  MOVE_SPEED_def MOVE_BOUNDS_x_def MOVE_BOUNDS_y_def FORWARD_SPEED_def BOOST_SPEED_def
  BOOST_DURATION_def BOOST_COOLDOWN_def DODGE_DURATION_def DODGE_COOLDOWN_def
  DODGE_AGILITY_MULT_def FIRE_RATE_def PROJECTILE_SPEED_def PROJECTILE_LIFETIME_def
  SHIP_TILT_FACTOR_def RETICLE_DISTANCE_def

subsection \<open>The steps of the game loop as record updates\<close>

lemma updateCooldowns_eq:
  "updateCooldowns f c s =
     s\<lparr>boostCooldown :=
         (if boostCooldown c > 0
          then max 0 (double_sub (boostCooldown s) (double_mul (delta f) 1000))
          else boostCooldown s),
       dodgeCooldown :=
         (if dodgeCooldown c > 0
          then max 0 (double_sub (dodgeCooldown s) (double_mul (delta f) 1000))
          else dodgeCooldown s)\<rparr>"
  by (simp add: updateCooldowns_def Let_def)

lemma handleBoost_eq:
  "handleBoost f c s =
     s\<lparr>boostActive :=
         (if boost (input f) \<and> boostCooldown c = 0 \<and> \<not> boostActive c then True
          else if boostActive c then \<not> (now f - boostStartTime s > BOOST_DURATION) \<and> boostActive s
          else boostActive s),
       boostStartTime :=
         (if boost (input f) \<and> boostCooldown c = 0 \<and> \<not> boostActive c then now f
          else boostStartTime s),
       boostCooldown :=
         (if boostActive c \<and> now f - boostStartTime s > BOOST_DURATION then BOOST_COOLDOWN
          else boostCooldown s)\<rparr>"
  by (simp add: handleBoost_def Let_def)

lemma handleDodge_eq:
  "handleDodge f c s =
     s\<lparr>isRolling :=
         (if dodge (input f) \<and> dodgeCooldown c = 0 \<and> \<not> isRolling c then True
          else if isRolling c \<and> (now f - dodgeStartTime s) / DODGE_DURATION \<ge> 1 then False
          else isRolling s),
       isInvulnerable :=
         (if dodge (input f) \<and> dodgeCooldown c = 0 \<and> \<not> isRolling c then True
          else if isRolling c \<and> (now f - dodgeStartTime s) / DODGE_DURATION \<ge> 1 then False
          else isInvulnerable s),
       dodgeStartTime :=
         (if dodge (input f) \<and> dodgeCooldown c = 0 \<and> \<not> isRolling c then now f
          else dodgeStartTime s),
       rollProgress :=
         (if dodge (input f) \<and> dodgeCooldown c = 0 \<and> \<not> isRolling c then 0
          else if isRolling c then min ((now f - dodgeStartTime s) / DODGE_DURATION) 1
          else rollProgress s),
       dodgeCooldown :=
         (if isRolling c \<and> (now f - dodgeStartTime s) / DODGE_DURATION \<ge> 1 then DODGE_COOLDOWN
          else dodgeCooldown s)\<rparr>"
  by (simp add: handleDodge_def Let_def)

lemma handleFiring_eq:
  "handleFiring g f c s =
     s\<lparr>lastFireTime :=
         (if fire (input f) \<and> \<not> fireNow f - lastFireTime s < FIRE_RATE then fireNow f
          else lastFireTime s),
       projectiles :=
         (if fire (input f) \<and> \<not> fireNow f - lastFireTime s < FIRE_RATE
          then projectiles s @
               [\<lparr>pid = fireNow f + rnd f, position = shipPosition g c,
                 direction = normalize (subVectors (reticlePosition g (input f) c) (shipPosition g c)),
                 meshPosition = shipPosition g c, startTime = None\<rparr>]
          else projectiles s)\<rparr>"
  by (simp add: handleFiring_def fireProjectile_def Let_def)

lemmas step_eqs = updateCooldowns_eq handleBoost_eq handleDodge_eq handleFiring_eq
  updateSplineProgress_def updateLocalOffset_def updateShipRotation_def

lemma gameLoop_boostActive:
  "boostActive (gameLoop g L f c) =
     (if boost (input f) \<and> boostCooldown c = 0 \<and> \<not> boostActive c then True
      else if boostActive c then \<not> (now f - boostStartTime c > BOOST_DURATION)
      else False)"
  by (simp add: gameLoop_def step_eqs Let_def)

lemma gameLoop_boostStartTime:
  "boostStartTime (gameLoop g L f c) =
     (if boost (input f) \<and> boostCooldown c = 0 \<and> \<not> boostActive c then now f
      else boostStartTime c)"
  by (simp add: gameLoop_def step_eqs Let_def)

lemma gameLoop_boostCooldown:
  "boostCooldown (gameLoop g L f c) =
     (if boostActive c \<and> now f - boostStartTime c > BOOST_DURATION then BOOST_COOLDOWN
      else if boostCooldown c > 0
           then max 0 (double_sub (boostCooldown c) (double_mul (delta f) 1000))
      else boostCooldown c)"
  by (simp add: gameLoop_def step_eqs Let_def)

lemma gameLoop_isRolling:
  "isRolling (gameLoop g L f c) =
     (if dodge (input f) \<and> dodgeCooldown c = 0 \<and> \<not> isRolling c then True
      else if isRolling c \<and> (now f - dodgeStartTime c) / DODGE_DURATION \<ge> 1 then False
      else isRolling c)"
  by (simp add: gameLoop_def step_eqs Let_def)

lemma gameLoop_isInvulnerable:
  "isInvulnerable (gameLoop g L f c) =
     (if dodge (input f) \<and> dodgeCooldown c = 0 \<and> \<not> isRolling c then True
      else if isRolling c \<and> (now f - dodgeStartTime c) / DODGE_DURATION \<ge> 1 then False
      else isInvulnerable c)"
  by (simp add: gameLoop_def step_eqs Let_def)

lemma gameLoop_dodgeCooldown:
  "dodgeCooldown (gameLoop g L f c) =
     (if isRolling c \<and> (now f - dodgeStartTime c) / DODGE_DURATION \<ge> 1 then DODGE_COOLDOWN
      else if dodgeCooldown c > 0
           then max 0 (double_sub (dodgeCooldown c) (double_mul (delta f) 1000))
      else dodgeCooldown c)"
  by (simp add: gameLoop_def step_eqs Let_def)

lemma gameLoop_splineProgress:
  "splineProgress (gameLoop g L f c) =
     (if splineProgress c + speedOf c * delta f / L \<ge> 1 then 0
      else splineProgress c + speedOf c * delta f / L)"
  by (simp add: gameLoop_def step_eqs Let_def)

lemma gameLoop_localOffset:
  "localOffset (gameLoop g L f c) =
     \<lparr>ox = clamp (ox (localOffset c) + moveX (input f) * MOVE_SPEED * delta f *
                    (if isRolling c then DODGE_AGILITY_MULT else 1))
              (- MOVE_BOUNDS_x) MOVE_BOUNDS_x,
      oy = clamp (oy (localOffset c) + moveY (input f) * MOVE_SPEED * delta f *
                    (if isRolling c then DODGE_AGILITY_MULT else 1))
              (- MOVE_BOUNDS_y) MOVE_BOUNDS_y\<rparr>"
  by (simp add: gameLoop_def step_eqs Let_def)

lemma gameLoop_lastFireTime:
  "lastFireTime (gameLoop g L f c) =
     (if fire (input f) \<and> \<not> fireNow f - lastFireTime c < FIRE_RATE then fireNow f
      else lastFireTime c)"
  by (simp add: gameLoop_def step_eqs Let_def)

lemma gameLoop_projectiles:
  "projectiles (gameLoop g L f c) =
     (if fire (input f) \<and> \<not> fireNow f - lastFireTime c < FIRE_RATE
      then projectiles c @
             [\<lparr>pid = fireNow f + rnd f, position = shipPosition g c,
               direction = normalize (subVectors (reticlePosition g (input f) c) (shipPosition g c)),
               meshPosition = shipPosition g c, startTime = None\<rparr>]
      else projectiles c)"
  by (simp add: gameLoop_def step_eqs Let_def)

lemmas gameLoop_fields = gameLoop_boostActive gameLoop_boostStartTime gameLoop_boostCooldown
  gameLoop_isRolling gameLoop_isInvulnerable gameLoop_dodgeCooldown gameLoop_splineProgress
  gameLoop_localOffset gameLoop_lastFireTime

lemma animationFrame_fields:
  "boostActive (animationFrame g L f c) = boostActive (gameLoop g L f c)"
  "boostStartTime (animationFrame g L f c) = boostStartTime (gameLoop g L f c)"
  "boostCooldown (animationFrame g L f c) = boostCooldown (gameLoop g L f c)"
  "isRolling (animationFrame g L f c) = isRolling (gameLoop g L f c)"
  "isInvulnerable (animationFrame g L f c) = isInvulnerable (gameLoop g L f c)"
  "dodgeCooldown (animationFrame g L f c) = dodgeCooldown (gameLoop g L f c)"
  "splineProgress (animationFrame g L f c) = splineProgress (gameLoop g L f c)"
  "localOffset (animationFrame g L f c) = localOffset (gameLoop g L f c)"
  "lastFireTime (animationFrame g L f c) = lastFireTime (gameLoop g L f c)"
  by (simp_all add: animationFrame_def Let_def)

subsection \<open>The ability invariant\<close>

lemma abilityInv_initial: "abilityInv initialState"
  by (simp add: abilityInv_def initialState_def)

lemma abilityInv_frame: "abilityInv c \<Longrightarrow> abilityInv (animationFrame g L f c)"
  unfolding abilityInv_def animationFrame_fields gameLoop_fields
  by (auto simp: CONFIG_defs)

lemma run_Nil: "run g L [] c = c"
  by (simp add: run_def)

lemma run_snoc: "run g L (fs @ [f]) c = animationFrame g L f (run g L fs c)"
  by (simp add: run_def)

lemma run_Cons: "run g L (f # fs) c = run g L fs (animationFrame g L f c)"
  by (simp add: run_def)

lemma abilityInv_run: "abilityInv (run g L fs initialState)"
  by (induction fs rule: rev_induct) (simp_all add: run_Nil run_snoc abilityInv_initial abilityInv_frame)

subsection \<open>A gated boost request\<close>

lemma handleBoost_gated:
  "boostActive c \<or> boostCooldown c \<noteq> 0 \<Longrightarrow>
   handleBoost (f\<lparr>input := (input f)\<lparr>boost := b\<rparr>\<rparr>) c s = handleBoost f c s"
  by (auto simp add: handleBoost_def Let_def)

lemma steps_ignore_boost:
  "updateCooldowns (f\<lparr>input := (input f)\<lparr>boost := b\<rparr>\<rparr>) c s = updateCooldowns f c s"
  "handleDodge (f\<lparr>input := (input f)\<lparr>boost := b\<rparr>\<rparr>) c s = handleDodge f c s"
  "updateSplineProgress L (f\<lparr>input := (input f)\<lparr>boost := b\<rparr>\<rparr>) c s = updateSplineProgress L f c s"
  "updateLocalOffset (f\<lparr>input := (input f)\<lparr>boost := b\<rparr>\<rparr>) c s = updateLocalOffset f c s"
  "updateShipRotation (f\<lparr>input := (input f)\<lparr>boost := b\<rparr>\<rparr>) s = updateShipRotation f s"
  "handleFiring g (f\<lparr>input := (input f)\<lparr>boost := b\<rparr>\<rparr>) c s = handleFiring g f c s"
  by (simp_all add: updateCooldowns_def handleDodge_def updateSplineProgress_def
      updateLocalOffset_def updateShipRotation_def handleFiring_def reticlePosition_def)

lemma gameLoop_boost_gated:
  "boostActive c \<or> boostCooldown c \<noteq> 0 \<Longrightarrow>
   gameLoop g L (f\<lparr>input := (input f)\<lparr>boost := b\<rparr>\<rparr>) c = gameLoop g L f c"
  by (simp only: gameLoop_def handleBoost_gated steps_ignore_boost)

lemma animationFrame_boost_gated:
  "boostActive c \<or> boostCooldown c \<noteq> 0 \<Longrightarrow>
   animationFrame g L (f\<lparr>input := (input f)\<lparr>boost := b\<rparr>\<rparr>) c = animationFrame g L f c"
proof -
  assume h: "boostActive c \<or> boostCooldown c \<noteq> 0"
  have d: "delta (f\<lparr>input := (input f)\<lparr>boost := b\<rparr>\<rparr>) = delta f"
    "projNow (f\<lparr>input := (input f)\<lparr>boost := b\<rparr>\<rparr>) = projNow f"
    "renderNow (f\<lparr>input := (input f)\<lparr>boost := b\<rparr>\<rparr>) = renderNow f"
    by simp_all
  show ?thesis
    unfolding animationFrame_def gameLoop_boost_gated [OF h] d ..
qed




lemma sampleFrame_fields:
  "now (sampleFrame t d i) = t" "delta (sampleFrame t d i) = d" "input (sampleFrame t d i) = i"
  "fireNow (sampleFrame t d i) = t" "rnd (sampleFrame t d i) = 1 / 2"
  "projNow (sampleFrame t d i) = t" "renderNow (sampleFrame t d i) = t"
  by (simp_all add: sampleFrame_def)

subsection \<open>Cooldown decay\<close>












subsection \<open>Lateral offset\<close>

lemma clamp_bounds: "lo \<le> hi \<Longrightarrow> lo \<le> clamp v lo hi \<and> clamp v lo hi \<le> hi"
  by (simp add: clamp_def)

lemma frame_offset_bounds:
  "- MOVE_BOUNDS_x \<le> ox (localOffset (animationFrame g L f c)) \<and>
   ox (localOffset (animationFrame g L f c)) \<le> MOVE_BOUNDS_x \<and>
   - MOVE_BOUNDS_y \<le> oy (localOffset (animationFrame g L f c)) \<and>
   oy (localOffset (animationFrame g L f c)) \<le> MOVE_BOUNDS_y"
  by (simp add: animationFrame_fields gameLoop_localOffset clamp_def CONFIG_defs)

lemma run_offset_bounds:
  "- MOVE_BOUNDS_x \<le> ox (localOffset (run g L fs initialState)) \<and>
   ox (localOffset (run g L fs initialState)) \<le> MOVE_BOUNDS_x \<and>
   - MOVE_BOUNDS_y \<le> oy (localOffset (run g L fs initialState)) \<and>
   oy (localOffset (run g L fs initialState)) \<le> MOVE_BOUNDS_y"
proof (cases fs rule: rev_cases)
  case Nil
  then show ?thesis by (simp add: run_Nil initialState_def CONFIG_defs)
next
  case (snoc gs f)
  then show ?thesis using frame_offset_bounds [of g L f "run g L gs initialState"]
    by (simp add: run_snoc)
qed

lemma two_frames_right:
  assumes "ox (localOffset c) = 0" "\<not> isRolling c"
    "moveX (input f1) = 1" "delta f1 = 1" "moveX (input f2) = 1" "delta f2 = 1"
  shows "ox (localOffset (animationFrame g L f1 c)) = 8 \<and>
         ox (localOffset (animationFrame g L f2 (animationFrame g L f1 c))) = 12"
  using assms by (simp add: animationFrame_fields gameLoop_localOffset clamp_def CONFIG_defs)


subsection \<open>Path progress\<close>

lemma frame_progress_eq:
  "splineProgress (animationFrame g L f c) =
     (let next = splineProgress c + ((if boostActive c then BOOST_SPEED else FORWARD_SPEED) * delta f) / L
      in if next \<ge> 1 then 0 else next)"
  by (simp add: animationFrame_fields gameLoop_splineProgress speedOf_def Let_def)

lemma frame_progress_lt_1: "splineProgress (animationFrame g L f c) < 1"
  by (simp add: frame_progress_eq Let_def)

lemma frame_progress_ge_0:
  assumes "0 < L" "0 \<le> delta f" "0 \<le> splineProgress c"
  shows "0 \<le> splineProgress (animationFrame g L f c)"
proof -
  have "0 \<le> (if boostActive c then BOOST_SPEED else FORWARD_SPEED) * delta f / L"
    using assms by (simp add: CONFIG_defs)
  then show ?thesis using assms(3) by (simp add: frame_progress_eq Let_def)
qed

lemma run_progress_range:
  assumes "0 < L" "\<forall>f \<in> set fs. 0 \<le> delta f"
  shows "0 \<le> splineProgress (run g L fs initialState) \<and> splineProgress (run g L fs initialState) < 1"
  using assms(2)
proof (induction fs rule: rev_induct)
  case Nil
  show ?case by (simp add: run_Nil initialState_def)
next
  case (snoc f fs)
  then have "0 \<le> splineProgress (run g L fs initialState)" and "0 \<le> delta f" by simp_all
  then show ?case
    using frame_progress_ge_0 [OF assms(1), of f "run g L fs initialState" g]
      frame_progress_lt_1 [of g L f "run g L fs initialState"]
    by (simp add: run_snoc)
qed

subsection \<open>Firing\<close>

lemma vlength_multiplyScalar: "vlength (multiplyScalar v k) = \<bar>k\<bar> * vlength v"
proof -
  have "vx v * k * (vx v * k) + vy v * k * (vy v * k) + vz v * k * (vz v * k) =
        (k * k) * (vx v * vx v + vy v * vy v + vz v * vz v)"
    by (simp add: algebra_simps)
  then show ?thesis
    by (simp add: vlength_def multiplyScalar_def real_sqrt_mult)
qed

lemma vlength_nonneg: "0 \<le> vlength v"
  by (simp add: vlength_def)

lemma vlength_normalize: "vlength v \<noteq> 0 \<Longrightarrow> vlength (normalize v) = 1"
  using vlength_nonneg [of v] by (simp add: normalize_def vlength_multiplyScalar)

lemma vlength_pos_if_vz: "vz v \<noteq> 0 \<Longrightarrow> 0 < vlength v"
proof -
  assume "vz v \<noteq> 0"
  then have "0 < vz v * vz v" by (simp add: zero_less_mult_iff less_le)
  moreover have "0 \<le> vx v * vx v" "0 \<le> vy v * vy v" by simp_all
  ultimately have "0 < vx v * vx v + vy v * vy v + vz v * vz v" by linarith
  then show ?thesis by (simp add: vlength_def)
qed

lemma aim_vector_vz: "vz (subVectors (reticlePosition g inp c) (shipPosition g c)) = - RETICLE_DISTANCE"
  by (simp add: subVectors_def reticlePosition_def)

lemma aim_vector_unit:
  "vlength (normalize (subVectors (reticlePosition g inp c) (shipPosition g c))) = 1"
proof -
  have "vz (subVectors (reticlePosition g inp c) (shipPosition g c)) \<noteq> 0"
    by (simp add: aim_vector_vz RETICLE_DISTANCE_def)
  from vlength_pos_if_vz [OF this] show ?thesis
    by (simp add: vlength_normalize)
qed

lemma fire_gated: "t - lastFireTime s < FIRE_RATE \<Longrightarrow> fireProjectile ship reticle t r s = s"
  by (simp add: fireProjectile_def)

lemma fire_spawns:
  "FIRE_RATE \<le> t - lastFireTime s \<Longrightarrow>
   fireProjectile ship reticle t r s =
     s\<lparr>lastFireTime := t,
       projectiles := projectiles s @
         [\<lparr>pid = t + r, position = ship, direction = normalize (subVectors reticle ship),
           meshPosition = ship, startTime = None\<rparr>]\<rparr>"
  by (simp add: fireProjectile_def)

lemma fire_count:
  "length (projectiles (fireProjectile ship reticle t r s)) =
     length (projectiles s) + (if t - lastFireTime s < FIRE_RATE then 0 else 1)"
  by (simp add: fireProjectile_def)

lemma fire_last:
  "lastFireTime (fireProjectile ship reticle t r s) =
     (if t - lastFireTime s < FIRE_RATE then lastFireTime s else t)"
  by (simp add: fireProjectile_def)

lemma fire_twice_close:
  "t2 - t1 < FIRE_RATE \<Longrightarrow>
   length (projectiles (fireProjectile ship2 reticle2 t2 r2 (fireProjectile ship1 reticle1 t1 r1 s)))
     \<le> length (projectiles s) + 1"
  by (simp add: fire_count fire_last)

lemma fire_twice_apart:
  "FIRE_RATE \<le> t1 - lastFireTime s \<Longrightarrow> FIRE_RATE \<le> t2 - t1 \<Longrightarrow>
   length (projectiles (fireProjectile ship2 reticle2 t2 r2 (fireProjectile ship1 reticle1 t1 r1 s)))
     = length (projectiles s) + 2"
  by (simp add: fire_count fire_last)

lemma fire_twice_first_gated:
  "t1 - lastFireTime s < FIRE_RATE \<Longrightarrow> lastFireTime s \<le> t1 \<Longrightarrow> FIRE_RATE \<le> t2 - t1 \<Longrightarrow>
   length (projectiles (fireProjectile ship2 reticle2 t2 r2 (fireProjectile ship1 reticle1 t1 r1 s)))
     = length (projectiles s) + 1"
  by (simp add: fire_count fire_last)

lemma gameLoop_fires:
  "projectiles (gameLoop g L f c) =
     (if fire (input f)
      then projectiles (fireProjectile (shipPosition g c) (reticlePosition g (input f) c)
             (fireNow f) (rnd f) c)
      else projectiles c)"
  by (simp add: gameLoop_projectiles fireProjectile_def)

subsection \<open>Projectile expiry\<close>

lemma foldl_removeProjectile:
  "foldl (\<lambda>prev i. removeProjectile i prev) xs ids = filter (\<lambda>q. pid q \<notin> set ids) xs"
proof (induction ids arbitrary: xs)
  case Nil
  show ?case by simp
next
  case (Cons i ids)
  show ?case by (simp add: Cons.IH) (simp add: removeProjectile_def conj_commute)
qed

lemma Projectile_useFrame_fst:
  "pid (fst (Projectile_useFrame t d p)) = pid p"
  "startTime (fst (Projectile_useFrame t d p)) = startTime p"
  by (simp_all add: Projectile_useFrame_def split: option.splits)

lemma Projectile_useFrame_snd:
  "snd (Projectile_useFrame t d p) = (if expired t p then Some (pid p) else None)"
  by (simp add: Projectile_useFrame_def expired_def split: option.splits)

lemma renderProjectile_pid: "pid (renderProjectile t p) = pid p"
  by (simp add: renderProjectile_def mountProjectile_def split: option.splits)

lemma renderProjectile_started:
  "startTime p = Some t0 \<Longrightarrow> startTime (renderProjectile t p) = Some t0"
  by (simp add: renderProjectile_def mountProjectile_def)

lemma renderProjectile_mounts:
  "startTime p = None \<Longrightarrow> startTime (renderProjectile t p) = Some t"
  by (simp add: renderProjectile_def mountProjectile_def)

lemma set_expiredIds: "set (expiredIds t d ps) = pid ` {p \<in> set ps. expired t p}"
  by (induction ps) (auto simp add: expiredIds_def Projectile_useFrame_snd)

lemma animationFrame_projectiles:
  "projectiles (animationFrame g L f c) =
     map (renderProjectile (renderNow f))
       (filter (\<lambda>q. pid q \<notin> set (expiredIds (projNow f) (delta f) (projectiles c)))
          (map (\<lambda>p. fst (Projectile_useFrame (projNow f) (delta f) p))
             (projectiles (gameLoop g L f c))))"
  by (simp add: animationFrame_def projectileCallbacks_def foldl_removeProjectile Let_def)

lemma animationFrame_ids:
  "map pid (projectiles (animationFrame g L f c)) =
     filter (\<lambda>i. i \<notin> set (expiredIds (projNow f) (delta f) (projectiles c)))
       (map pid (projectiles (gameLoop g L f c)))"
  by (simp add: animationFrame_projectiles filter_map o_def renderProjectile_pid
      Projectile_useFrame_fst)

lemma gameLoop_ids:
  "map pid (projectiles (gameLoop g L f c)) =
     map pid (projectiles c) @
       (if fire (input f) \<and> FIRE_RATE \<le> fireNow f - lastFireTime c then [fireNow f + rnd f] else [])"
  by (simp add: gameLoop_projectiles not_less)

lemma lastFireTime_mono: "lastFireTime c \<le> lastFireTime (animationFrame g L f c)"
  by (simp add: animationFrame_fields gameLoop_lastFireTime FIRE_RATE_def)

lemma projInv_initial: "projInv initialState"
  by (simp add: projInv_def initialState_def)

lemma projInv_frame:
  assumes "projInv c" "0 \<le> rnd f" "rnd f < 1"
  shows "projInv (animationFrame g L f c)"
proof -
  have old: "\<forall>i \<in> set (map pid (projectiles c)). i < lastFireTime c + 1"
    and dist: "distinct (map pid (projectiles c))"
    using assms(1) by (auto simp: projInv_def)
  let ?ids = "map pid (projectiles (gameLoop g L f c))"
  have d: "distinct ?ids"
    using old dist assms(2) by (auto simp add: gameLoop_ids FIRE_RATE_def)
  have b: "\<forall>i \<in> set ?ids. i < lastFireTime (gameLoop g L f c) + 1"
    using old assms(3) by (auto simp add: gameLoop_ids gameLoop_lastFireTime FIRE_RATE_def not_less)
  have "distinct (map pid (projectiles (animationFrame g L f c)))"
    unfolding animationFrame_ids using d by (rule distinct_filter)
  moreover have "\<forall>i \<in> set (map pid (projectiles (animationFrame g L f c))).
      i < lastFireTime (animationFrame g L f c) + 1"
    unfolding animationFrame_ids using b by (auto simp add: animationFrame_fields)
  ultimately show ?thesis by (simp add: projInv_def)
qed

lemma projInv_run_from:
  "projInv s \<Longrightarrow> \<forall>f \<in> set fs. 0 \<le> rnd f \<and> rnd f < 1 \<Longrightarrow> projInv (run g L fs s)"
  by (induction fs rule: rev_induct) (simp_all add: run_Nil run_snoc projInv_frame)

lemma projInv_run:
  "\<forall>f \<in> set fs. 0 \<le> rnd f \<and> rnd f < 1 \<Longrightarrow> projInv (run g L fs initialState)"
  by (rule projInv_run_from [OF projInv_initial])

lemma frame_keeps_young:
  assumes inv: "projInv c" and q: "q \<in> set (projectiles c)" and st: "startTime q = Some t0"
    and young: "projNow f - t0 \<le> PROJECTILE_LIFETIME"
  shows "\<exists>q' \<in> set (projectiles (animationFrame g L f c)). pid q' = pid q \<and> startTime q' = Some t0"
proof -
  let ?adv = "\<lambda>p. fst (Projectile_useFrame (projNow f) (delta f) p)"
  have "q \<in> set (projectiles (gameLoop g L f c))"
    using q by (simp add: gameLoop_projectiles)
  then have a: "?adv q \<in> set (map ?adv (projectiles (gameLoop g L f c)))"
    by simp
  have ne: "\<not> expired (projNow f) q"
    using st young by (simp add: expired_def)
  have "pid q \<notin> set (expiredIds (projNow f) (delta f) (projectiles c))"
  proof
    assume "pid q \<in> set (expiredIds (projNow f) (delta f) (projectiles c))"
    then obtain p where p: "p \<in> set (projectiles c)" "expired (projNow f) p" "pid p = pid q"
      by (auto simp add: set_expiredIds)
    have "inj_on pid (set (projectiles c))"
      using inv by (simp add: projInv_def distinct_map)
    then have "p = q" using p(1,3) q by (auto dest: inj_onD)
    then show False using p(2) ne by simp
  qed
  then have "renderProjectile (renderNow f) (?adv q) \<in> set (projectiles (animationFrame g L f c))"
    using a by (simp add: animationFrame_projectiles Projectile_useFrame_fst)
  moreover have "pid (renderProjectile (renderNow f) (?adv q)) = pid q"
    by (simp add: renderProjectile_pid Projectile_useFrame_fst)
  moreover have "startTime (renderProjectile (renderNow f) (?adv q)) = Some t0"
    by (simp add: renderProjectile_started Projectile_useFrame_fst st)
  ultimately show ?thesis by blast
qed

lemma frame_removes_old:
  assumes q: "q \<in> set (projectiles c)" and st: "startTime q = Some t0"
    and old: "projNow f - t0 > PROJECTILE_LIFETIME"
  shows "pid q \<notin> pid ` set (projectiles (animationFrame g L f c))"
proof -
  have "expired (projNow f) q" using st old by (simp add: expired_def)
  then have "pid q \<in> set (expiredIds (projNow f) (delta f) (projectiles c))"
    using q by (auto simp add: set_expiredIds)
  then have "pid q \<notin> set (map pid (projectiles (animationFrame g L f c)))"
    unfolding animationFrame_ids by simp
  then show ?thesis by simp
qed

lemma frame_keeps_absent:
  assumes "i \<notin> pid ` set (projectiles c)" "i < lastFireTime c + 1" "0 \<le> rnd f"
  shows "i \<notin> pid ` set (projectiles (animationFrame g L f c))"
proof -
  have "i \<notin> set (map pid (projectiles (gameLoop g L f c)))"
    using assms by (auto simp add: gameLoop_ids FIRE_RATE_def)
  then have "i \<notin> set (map pid (projectiles (animationFrame g L f c)))"
    unfolding animationFrame_ids by simp
  then show ?thesis by simp
qed

lemma frame_mounts_new:
  assumes inv: "projInv c" and r: "0 \<le> rnd f"
    and fires: "fire (input f)" "FIRE_RATE \<le> fireNow f - lastFireTime c"
  shows "\<exists>p \<in> set (projectiles (animationFrame g L f c)).
           pid p = fireNow f + rnd f \<and> startTime p = Some (renderNow f)"
proof -
  let ?adv = "\<lambda>p. fst (Projectile_useFrame (projNow f) (delta f) p)"
  let ?n = "\<lparr>pid = fireNow f + rnd f, position = shipPosition g c,
      direction = normalize (subVectors (reticlePosition g (input f) c) (shipPosition g c)),
      meshPosition = shipPosition g c, startTime = None\<rparr>"
  have "?n \<in> set (projectiles (gameLoop g L f c))"
    using fires by (simp add: gameLoop_projectiles not_less)
  then have a: "?adv ?n \<in> set (map ?adv (projectiles (gameLoop g L f c)))"
    unfolding set_map by (rule imageI)
  have "\<forall>p \<in> set (projectiles c). pid p < fireNow f + rnd f"
    using inv r fires(2) by (auto simp add: projInv_def FIRE_RATE_def)
  then have "fireNow f + rnd f \<notin> set (expiredIds (projNow f) (delta f) (projectiles c))"
    by (auto simp add: set_expiredIds)
  then have "renderProjectile (renderNow f) (?adv ?n) \<in> set (projectiles (animationFrame g L f c))"
    using a by (simp add: animationFrame_projectiles Projectile_useFrame_fst)
  moreover have "pid (renderProjectile (renderNow f) (?adv ?n)) = fireNow f + rnd f"
    by (simp add: renderProjectile_pid Projectile_useFrame_fst)
  moreover have "startTime (renderProjectile (renderNow f) (?adv ?n)) = Some (renderNow f)"
    by (simp add: renderProjectile_mounts Projectile_useFrame_fst)
  ultimately show ?thesis by blast
qed

lemma run_tracks:
  assumes inv: "projInv s" and q: "q \<in> set (projectiles s)" and st: "startTime q = Some t0"
    and r: "\<forall>f \<in> set gs. 0 \<le> rnd f \<and> rnd f < 1"
  shows "pid q < lastFireTime (run g L gs s) + 1 \<and>
    (if \<forall>f \<in> set gs. projNow f - t0 \<le> PROJECTILE_LIFETIME
     then \<exists>q' \<in> set (projectiles (run g L gs s)). pid q' = pid q \<and> startTime q' = Some t0
     else pid q \<notin> pid ` set (projectiles (run g L gs s)))"
  using r
proof (induction gs rule: rev_induct)
  case Nil
  show ?case using inv q st by (auto simp add: run_Nil projInv_def)
next
  case (snoc f gs)
  let ?c = "run g L gs s"
  have rs: "\<forall>f \<in> set gs. 0 \<le> rnd f \<and> rnd f < 1" and rf: "0 \<le> rnd f" "rnd f < 1"
    using snoc.prems by simp_all
  have invc: "projInv ?c" by (rule projInv_run_from [OF inv rs])
  have ih: "pid q < lastFireTime ?c + 1"
    "if \<forall>f \<in> set gs. projNow f - t0 \<le> PROJECTILE_LIFETIME
     then \<exists>q' \<in> set (projectiles ?c). pid q' = pid q \<and> startTime q' = Some t0
     else pid q \<notin> pid ` set (projectiles ?c)"
    using snoc.IH [OF rs] by simp_all
  have b: "pid q < lastFireTime (animationFrame g L f ?c) + 1"
    using ih(1) lastFireTime_mono [of ?c g L f] by simp
  show ?case
  proof (cases "\<forall>f \<in> set gs. projNow f - t0 \<le> PROJECTILE_LIFETIME")
    case True
    then obtain q' where q': "q' \<in> set (projectiles ?c)" "pid q' = pid q" "startTime q' = Some t0"
      using ih(2) by auto
    show ?thesis
    proof (cases "projNow f - t0 \<le> PROJECTILE_LIFETIME")
      case young: True
      show ?thesis
        using b True young frame_keeps_young [OF invc q'(1) q'(3) young, of g L] q'(2)
        by (simp add: run_snoc)
    next
      case False
      then have "projNow f - t0 > PROJECTILE_LIFETIME" by simp
      from frame_removes_old [OF q'(1) q'(3) this, of g L] show ?thesis
        using b False q'(2) by (simp add: run_snoc)
    qed
  next
    case False
    then have "pid q \<notin> pid ` set (projectiles ?c)" using ih(2) by simp
    from frame_keeps_absent [OF this ih(1) rf(1), of g L] show ?thesis
      using b False by (auto simp add: run_snoc)
  qed
qed

subsection \<open>Input merging\<close>

lemma stick_or_digital:
  "num_or (applyDeadzone (num_or v 0)) d = (if deadzone \<le> \<bar>v\<bar> then v else d)"
  by (auto simp add: num_or_def applyDeadzone_def deadzone_def)

lemma stick_or_digital_neg:
  "num_or (applyDeadzone (- (num_or v 0))) d = (if deadzone \<le> \<bar>v\<bar> then - v else d)"
  by (auto simp add: num_or_def applyDeadzone_def deadzone_def)

lemma keys_values: "keysX k \<in> {- 1, 0, 1} \<and> keysY k \<in> {- 1, 0, 1}"
  by (simp add: keysX_def keysY_def)

lemma pointer_range:
  assumes "0 < w" "0 \<le> cx" "cx \<le> w" "0 < h" "0 \<le> cy" "cy \<le> h"
  shows "- 1 \<le> mouse_x (handleMouseMove cx cy w h) \<and> mouse_x (handleMouseMove cx cy w h) \<le> 1 \<and>
         - 1 \<le> mouse_y (handleMouseMove cx cy w h) \<and> mouse_y (handleMouseMove cx cy w h) \<le> 1"
proof -
  have "0 \<le> cx / w" "cx / w \<le> 1" "0 \<le> cy / h" "cy / h \<le> 1"
    using assms by simp_all
  moreover have "mouse_x (handleMouseMove cx cy w h) = 2 * (cx / w) - 1"
    "mouse_y (handleMouseMove cx cy w h) = 1 - 2 * (cy / h)"
    by (simp_all add: handleMouseMove_def)
  ultimately show ?thesis by linarith
qed

lemma pointer_centre:
  "0 < w \<Longrightarrow> 0 < h \<Longrightarrow> handleMouseMove (w / 2) (h / 2) w h = \<lparr>mouse_x = 0, mouse_y = 0\<rparr>"
  by (simp add: handleMouseMove_def)

subsection \<open>Reported speed\<close>

lemma frame_currentSpeed:
  "currentSpeed (animationFrame g L f c) = (if boostActive c then BOOST_SPEED else FORWARD_SPEED)"
  by (simp add: animationFrame_def gameLoop_def step_eqs speedOf_def Let_def)

section \<open>Claims\<close>

text \<open>C1. In every state reached from the initial state by any sequence of animation
  frames, whatever the inputs and clock readings, the invulnerability flag equals the
  rolling (dodging) flag: the ship is invulnerable exactly while a barrel roll is
  active.\<close>

theorem invulnerable_iff_rolling:
  "isInvulnerable (run g L fs initialState) = isRolling (run g L fs initialState)"
  using abilityInv_run [of g L fs] by (simp add: abilityInv_def)

text \<open>C2. Boost activation is gated by the conjunction: from any state, a frame takes the
  boost from inactive to active if and only if the boost input is set, the boost
  cooldown is zero and the boost is not active; the activation records the clock as the
  start time. While the boost is active or the cooldown is not zero, a frame with the
  boost input set leaves exactly the same state as the same frame without it.\<close>

theorem boost_activation_gate:
  "((\<not> boostActive c \<and> boostActive (animationFrame g L f c)) =
      (boost (input f) \<and> boostCooldown c = 0 \<and> \<not> boostActive c)) \<and>
   (boost (input f) \<and> boostCooldown c = 0 \<and> \<not> boostActive c \<longrightarrow>
      boostStartTime (animationFrame g L f c) = now f) \<and>
   (boostActive c \<or> boostCooldown c \<noteq> 0 \<longrightarrow>
      animationFrame g L (f\<lparr>input := (input f)\<lparr>boost := True\<rparr>\<rparr>) c =
      animationFrame g L (f\<lparr>input := (input f)\<lparr>boost := False\<rparr>\<rparr>) c)"
proof (intro conjI impI)
  show "(\<not> boostActive c \<and> boostActive (animationFrame g L f c)) =
      (boost (input f) \<and> boostCooldown c = 0 \<and> \<not> boostActive c)"
    by (auto simp add: animationFrame_fields gameLoop_boostActive)
next
  assume "boost (input f) \<and> boostCooldown c = 0 \<and> \<not> boostActive c"
  then show "boostStartTime (animationFrame g L f c) = now f"
    by (simp add: animationFrame_fields gameLoop_boostStartTime)
next
  assume h: "boostActive c \<or> boostCooldown c \<noteq> 0"
  show "animationFrame g L (f\<lparr>input := (input f)\<lparr>boost := True\<rparr>\<rparr>) c =
      animationFrame g L (f\<lparr>input := (input f)\<lparr>boost := False\<rparr>\<rparr>) c"
    by (simp add: animationFrame_boost_gated [OF h])
qed

theorem boost_activation_gate_witness:
  "boostCooldown initialState = 0 \<and> \<not> boostActive initialState \<and>
   boostActive (animationFrame straightPath 1000
      (sampleFrame 5000 (1 / 60) (idleInput\<lparr>boost := True\<rparr>)) initialState) \<and>
   boostStartTime (animationFrame straightPath 1000
      (sampleFrame 5000 (1 / 60) (idleInput\<lparr>boost := True\<rparr>)) initialState) = 5000 \<and>
   boostCooldown (initialState\<lparr>boostCooldown := 400\<rparr>) \<noteq> 0 \<and>
   animationFrame straightPath 1000
      (sampleFrame 5000 (1 / 60) (idleInput\<lparr>boost := True\<rparr>)) (initialState\<lparr>boostCooldown := 400\<rparr>) =
   animationFrame straightPath 1000
      (sampleFrame 5000 (1 / 60) (idleInput\<lparr>boost := False\<rparr>)) (initialState\<lparr>boostCooldown := 400\<rparr>)"
  using boost_activation_gate [of initialState straightPath 1000
      "sampleFrame 5000 (1 / 60) (idleInput\<lparr>boost := True\<rparr>)"]
    boost_activation_gate [of "initialState\<lparr>boostCooldown := 400\<rparr>" straightPath 1000
      "sampleFrame 5000 (1 / 60) idleInput"]
  by (simp add: initialState_def sampleFrame_def idleInput_def)




text \<open>C4. After every run of frames from the initial state, and after one frame from any
  state, the lateral offset lies within the bounds on each axis; each axis is clamped on
  its own. With a move speed of 8, a bound of 12, a delta of one second and a move input
  of 1 on x, a first frame from offset 0 (no roll active) gives 8 and a second one gives
  12, not 16.\<close>

theorem lateral_offset_clamped:
  "- MOVE_BOUNDS_x \<le> ox (localOffset (run g L fs initialState)) \<and>
   ox (localOffset (run g L fs initialState)) \<le> MOVE_BOUNDS_x \<and>
   - MOVE_BOUNDS_y \<le> oy (localOffset (run g L fs initialState)) \<and>
   oy (localOffset (run g L fs initialState)) \<le> MOVE_BOUNDS_y \<and>
   localOffset (animationFrame g L f c) =
     \<lparr>ox = clamp (ox (localOffset c) + moveX (input f) * MOVE_SPEED * delta f *
                    (if isRolling c then DODGE_AGILITY_MULT else 1))
              (- MOVE_BOUNDS_x) MOVE_BOUNDS_x,
      oy = clamp (oy (localOffset c) + moveY (input f) * MOVE_SPEED * delta f *
                    (if isRolling c then DODGE_AGILITY_MULT else 1))
              (- MOVE_BOUNDS_y) MOVE_BOUNDS_y\<rparr> \<and>
   - MOVE_BOUNDS_x \<le> ox (localOffset (animationFrame g L f c)) \<and>
   ox (localOffset (animationFrame g L f c)) \<le> MOVE_BOUNDS_x \<and>
   - MOVE_BOUNDS_y \<le> oy (localOffset (animationFrame g L f c)) \<and>
   oy (localOffset (animationFrame g L f c)) \<le> MOVE_BOUNDS_y \<and>
   (MOVE_SPEED = 8 \<and> MOVE_BOUNDS_x = 12 \<and> ox (localOffset c) = 0 \<and> \<not> isRolling c \<and>
    moveX (input f1) = 1 \<and> delta f1 = 1 \<and> moveX (input f2) = 1 \<and> delta f2 = 1 \<longrightarrow>
      ox (localOffset (animationFrame g L f1 c)) = 8 \<and>
      ox (localOffset (animationFrame g L f2 (animationFrame g L f1 c))) = 12)"
proof -
  have "localOffset (animationFrame g L f c) =
     \<lparr>ox = clamp (ox (localOffset c) + moveX (input f) * MOVE_SPEED * delta f *
                    (if isRolling c then DODGE_AGILITY_MULT else 1))
              (- MOVE_BOUNDS_x) MOVE_BOUNDS_x,
      oy = clamp (oy (localOffset c) + moveY (input f) * MOVE_SPEED * delta f *
                    (if isRolling c then DODGE_AGILITY_MULT else 1))
              (- MOVE_BOUNDS_y) MOVE_BOUNDS_y\<rparr>"
    by (simp only: animationFrame_fields gameLoop_localOffset)
  moreover have "ox (localOffset (animationFrame g L f1 c)) = 8 \<and>
      ox (localOffset (animationFrame g L f2 (animationFrame g L f1 c))) = 12"
    if "MOVE_SPEED = 8 \<and> MOVE_BOUNDS_x = 12 \<and> ox (localOffset c) = 0 \<and> \<not> isRolling c \<and>
      moveX (input f1) = 1 \<and> delta f1 = 1 \<and> moveX (input f2) = 1 \<and> delta f2 = 1"
    using that two_frames_right [of c f1 f2 g L] by blast
  ultimately show ?thesis
    using run_offset_bounds [of g L fs] frame_offset_bounds [of g L f c] by blast
qed

theorem lateral_offset_clamped_witness:
  "MOVE_SPEED = 8 \<and> MOVE_BOUNDS_x = 12 \<and> ox (localOffset initialState) = 0 \<and>
   \<not> isRolling initialState \<and>
   ox (localOffset (animationFrame straightPath 1000
        (sampleFrame 5000 1 (idleInput\<lparr>moveX := 1\<rparr>)) initialState)) = 8 \<and>
   ox (localOffset (animationFrame straightPath 1000
        (sampleFrame 6000 1 (idleInput\<lparr>moveX := 1\<rparr>))
        (animationFrame straightPath 1000
           (sampleFrame 5000 1 (idleInput\<lparr>moveX := 1\<rparr>)) initialState))) = 12"
proof -
  have h: "MOVE_SPEED = 8 \<and> MOVE_BOUNDS_x = 12 \<and> ox (localOffset initialState) = 0 \<and>
      \<not> isRolling initialState \<and>
      moveX (input (sampleFrame 5000 1 (idleInput\<lparr>moveX := 1\<rparr>))) = 1 \<and>
      delta (sampleFrame 5000 1 (idleInput\<lparr>moveX := 1\<rparr>)) = 1 \<and>
      moveX (input (sampleFrame 6000 1 (idleInput\<lparr>moveX := 1\<rparr>))) = 1 \<and>
      delta (sampleFrame 6000 1 (idleInput\<lparr>moveX := 1\<rparr>)) = 1"
    by (simp add: initialState_def sampleFrame_fields idleInput_def CONFIG_defs)
  show ?thesis
    using h lateral_offset_clamped [of straightPath 1000 "[]"
      "sampleFrame 5000 1 (idleInput\<lparr>moveX := 1\<rparr>)" initialState
      "sampleFrame 5000 1 (idleInput\<lparr>moveX := 1\<rparr>)"
      "sampleFrame 6000 1 (idleInput\<lparr>moveX := 1\<rparr>)"]
    by blast
qed

text \<open>C5. A fire attempt at time \<open>t\<close> is a no-op when \<open>t - lastFireTime\<close> is less
  than the fire rate: nothing is spawned and \<open>lastFireTime\<close> is unchanged. Otherwise it
  appends exactly one projectile at the ship position, whose direction is the normalised
  vector from the ship to the reticle, and sets \<open>lastFireTime\<close> to \<open>t\<close>. The direction
  has length 1 whenever reticle and ship differ, which is always so for the reticle the
  game loop derives (it lies the reticle distance ahead of the ship). Two attempts
  separated by less than the fire rate produce at most one projectile; two attempts
  separated by at least the fire rate produce two when the first of them is itself not
  gated (it comes at least the fire rate after the last shot), and exactly one when the
  first of them is gated by a shot that is not later than it.\<close>

theorem fire_rate_gate:
  "(t - lastFireTime s < FIRE_RATE \<longrightarrow> fireProjectile ship reticle t r s = s) \<and>
   (FIRE_RATE \<le> t - lastFireTime s \<longrightarrow>
      fireProjectile ship reticle t r s =
        s\<lparr>lastFireTime := t,
          projectiles := projectiles s @
            [\<lparr>pid = t + r, position = ship, direction = normalize (subVectors reticle ship),
              meshPosition = ship, startTime = None\<rparr>]\<rparr>) \<and>
   (vlength (subVectors reticle ship) \<noteq> 0 \<longrightarrow>
      vlength (normalize (subVectors reticle ship)) = 1 \<and>
      normalize (subVectors reticle ship) =
        multiplyScalar (subVectors reticle ship) (1 / vlength (subVectors reticle ship))) \<and>
   vlength (normalize (subVectors (reticlePosition g inp c) (shipPosition g c))) = 1 \<and>
   projectiles (gameLoop g L f c) =
     (if fire (input f)
      then projectiles (fireProjectile (shipPosition g c) (reticlePosition g (input f) c)
             (fireNow f) (rnd f) c)
      else projectiles c) \<and>
   (t2 - t < FIRE_RATE \<longrightarrow>
      length (projectiles (fireProjectile ship2 reticle2 t2 r2 (fireProjectile ship reticle t r s)))
        \<le> length (projectiles s) + 1) \<and>
   (FIRE_RATE \<le> t - lastFireTime s \<and> FIRE_RATE \<le> t2 - t \<longrightarrow>
      length (projectiles (fireProjectile ship2 reticle2 t2 r2 (fireProjectile ship reticle t r s)))
        = length (projectiles s) + 2) \<and>
   (t - lastFireTime s < FIRE_RATE \<and> lastFireTime s \<le> t \<and> FIRE_RATE \<le> t2 - t \<longrightarrow>
      length (projectiles (fireProjectile ship2 reticle2 t2 r2 (fireProjectile ship reticle t r s)))
        = length (projectiles s) + 1)"
  using fire_gated [of t s ship reticle r] fire_spawns [of t s ship reticle r]
    gameLoop_fires [of g L f c] vlength_normalize [of "subVectors reticle ship"] aim_vector_unit [of g inp c]
    fire_twice_close [of t2 t ship2 reticle2 r2 ship reticle r s]
    fire_twice_apart [of t s t2 ship2 reticle2 r2 ship reticle r]
    fire_twice_first_gated [of t s t2 ship2 reticle2 r2 ship reticle r]
  by (simp add: normalize_def)

theorem fire_rate_gate_witness:
  "50 - lastFireTime initialState < FIRE_RATE \<and>
   fireProjectile \<lparr>vx = 0, vy = 0, vz = 0\<rparr> \<lparr>vx = 0, vy = 0, vz = - 50\<rparr> 50 (1 / 2) initialState
     = initialState \<and>
   FIRE_RATE \<le> 1000 - lastFireTime initialState \<and>
   lastFireTime (fireProjectile \<lparr>vx = 0, vy = 0, vz = 0\<rparr> \<lparr>vx = 0, vy = 0, vz = - 50\<rparr>
      1000 (1 / 2) initialState) = 1000 \<and>
   map pid (projectiles (fireProjectile \<lparr>vx = 0, vy = 0, vz = 0\<rparr> \<lparr>vx = 0, vy = 0, vz = - 50\<rparr>
      1000 (1 / 2) initialState)) = [1000 + 1 / 2] \<and>
   vlength (subVectors \<lparr>vx = 0, vy = 0, vz = - 50\<rparr> \<lparr>vx = 0, vy = 0, vz = 0\<rparr>) \<noteq> 0 \<and>
   normalize (subVectors \<lparr>vx = 0, vy = 0, vz = - 50\<rparr> \<lparr>vx = 0, vy = 0, vz = 0\<rparr>)
     = \<lparr>vx = 0, vy = 0, vz = - 1\<rparr> \<and>
   (1050::real) - 1000 < FIRE_RATE \<and>
   length (projectiles (fireProjectile \<lparr>vx = 0, vy = 0, vz = 0\<rparr> \<lparr>vx = 0, vy = 0, vz = - 50\<rparr>
      1050 (1 / 2) (fireProjectile \<lparr>vx = 0, vy = 0, vz = 0\<rparr> \<lparr>vx = 0, vy = 0, vz = - 50\<rparr>
      1000 (1 / 2) initialState))) \<le> 1 \<and>
   FIRE_RATE \<le> (1100::real) - 1000 \<and>
   length (projectiles (fireProjectile \<lparr>vx = 0, vy = 0, vz = 0\<rparr> \<lparr>vx = 0, vy = 0, vz = - 50\<rparr>
      1100 (1 / 2) (fireProjectile \<lparr>vx = 0, vy = 0, vz = 0\<rparr> \<lparr>vx = 0, vy = 0, vz = - 50\<rparr>
      1000 (1 / 2) initialState))) = 2 \<and>
   1050 - lastFireTime (fireProjectile \<lparr>vx = 0, vy = 0, vz = 0\<rparr> \<lparr>vx = 0, vy = 0, vz = - 50\<rparr>
      1000 (1 / 2) initialState) < FIRE_RATE \<and>
   lastFireTime (fireProjectile \<lparr>vx = 0, vy = 0, vz = 0\<rparr> \<lparr>vx = 0, vy = 0, vz = - 50\<rparr>
      1000 (1 / 2) initialState) \<le> 1050 \<and>
   FIRE_RATE \<le> (1150::real) - 1050 \<and>
   length (projectiles (fireProjectile \<lparr>vx = 0, vy = 0, vz = 0\<rparr> \<lparr>vx = 0, vy = 0, vz = - 50\<rparr>
      1150 (1 / 2) (fireProjectile \<lparr>vx = 0, vy = 0, vz = 0\<rparr> \<lparr>vx = 0, vy = 0, vz = - 50\<rparr>
      1050 (1 / 2) (fireProjectile \<lparr>vx = 0, vy = 0, vz = 0\<rparr> \<lparr>vx = 0, vy = 0, vz = - 50\<rparr>
      1000 (1 / 2) initialState)))) = 2"
proof -
  let ?o = "\<lparr>vx = 0, vy = 0, vz = 0\<rparr>" and ?a = "\<lparr>vx = 0, vy = 0, vz = - 50\<rparr>"
  let ?s1 = "fireProjectile ?o ?a 1000 (1 / 2) initialState"
  have "sqrt (50 * 50) = 50" by simp
  then have len: "vlength (subVectors ?a ?o) = 50"
    by (simp add: vlength_def subVectors_def)
  then have nz: "vlength (subVectors ?a ?o) \<noteq> 0" by simp
  have h: "50 - lastFireTime initialState < FIRE_RATE" "FIRE_RATE \<le> 1000 - lastFireTime initialState"
    "(1050::real) - 1000 < FIRE_RATE" "FIRE_RATE \<le> (1100::real) - 1000"
    by (simp_all add: initialState_def FIRE_RATE_def)
  note near = fire_rate_gate [of 1000 initialState ?o ?a "1 / 2" straightPath idleInput initialState
      1000 "sampleFrame 1000 (1 / 60) idleInput" 1050 ?o ?a "1 / 2"]
  note far = fire_rate_gate [of 1000 initialState ?o ?a "1 / 2" straightPath idleInput initialState
      1000 "sampleFrame 1000 (1 / 60) idleInput" 1100 ?o ?a "1 / 2"]
  have a: "fireProjectile ?o ?a 50 (1 / 2) initialState = initialState"
    using h(1) fire_rate_gate [of 50 initialState ?o ?a "1 / 2" straightPath idleInput initialState
      1000 "sampleFrame 1000 (1 / 60) idleInput" 1050 ?o ?a "1 / 2"] by blast
  have "?s1 = initialState\<lparr>lastFireTime := 1000,
          projectiles := projectiles initialState @
            [\<lparr>pid = 1000 + 1 / 2, position = ?o, direction = normalize (subVectors ?a ?o),
              meshPosition = ?o, startTime = None\<rparr>]\<rparr>"
    using h(2) near by blast
  then have b: "lastFireTime ?s1 = 1000" "map pid (projectiles ?s1) = [1000 + 1 / 2]"
    by (simp_all add: initialState_def)
  have "normalize (subVectors ?a ?o) = multiplyScalar (subVectors ?a ?o) (1 / vlength (subVectors ?a ?o))"
    using nz near by blast
  then have c: "normalize (subVectors ?a ?o) = \<lparr>vx = 0, vy = 0, vz = - 1\<rparr>"
    unfolding len by (simp add: multiplyScalar_def subVectors_def)
  have "length (projectiles (fireProjectile ?o ?a 1050 (1 / 2) ?s1)) \<le> length (projectiles initialState) + 1"
    using h(3) near by blast
  then have d: "length (projectiles (fireProjectile ?o ?a 1050 (1 / 2) ?s1)) \<le> 1"
    by (simp add: initialState_def)
  have "length (projectiles (fireProjectile ?o ?a 1100 (1 / 2) ?s1)) = length (projectiles initialState) + 2"
    using h(2) h(4) far by blast
  then have e: "length (projectiles (fireProjectile ?o ?a 1100 (1 / 2) ?s1)) = 2"
    by (simp add: initialState_def)
  have k: "1050 - lastFireTime ?s1 < FIRE_RATE" "lastFireTime ?s1 \<le> 1050"
    "FIRE_RATE \<le> (1150::real) - 1050"
    by (simp_all add: b(1) FIRE_RATE_def)
  have "length (map pid (projectiles ?s1)) = 1" unfolding b(2) by simp
  then have one: "length (projectiles ?s1) = 1" by simp
  have "length (projectiles (fireProjectile ?o ?a 1150 (1 / 2) (fireProjectile ?o ?a 1050 (1 / 2) ?s1)))
      = length (projectiles ?s1) + 1"
    using k fire_rate_gate [of 1050 ?s1 ?o ?a "1 / 2" straightPath idleInput initialState
      1000 "sampleFrame 1000 (1 / 60) idleInput" 1150 ?o ?a "1 / 2"] by blast
  then have g: "length (projectiles (fireProjectile ?o ?a 1150 (1 / 2)
      (fireProjectile ?o ?a 1050 (1 / 2) ?s1))) = 2"
    unfolding one by simp
  show ?thesis
    using h nz a b c d e k g by blast
qed

theorem fire_two_apart_counterexample:
  "\<not> (\<forall>ship reticle t1 t2 r s.
        FIRE_RATE \<le> t2 - t1 \<longrightarrow>
        length (projectiles (fireProjectile ship reticle t2 r (fireProjectile ship reticle t1 r s)))
          = length (projectiles s) + 2)"
proof
  let ?o = "\<lparr>vx = 0, vy = 0, vz = 0\<rparr>" and ?a = "\<lparr>vx = 0, vy = 0, vz = - 50\<rparr>"
  let ?s = "fireProjectile ?o ?a 1000 (1 / 2) initialState"
  assume "\<forall>ship reticle t1 t2 r s.
        FIRE_RATE \<le> t2 - t1 \<longrightarrow>
        length (projectiles (fireProjectile ship reticle t2 r (fireProjectile ship reticle t1 r s)))
          = length (projectiles s) + 2"
  then have "FIRE_RATE \<le> 1150 - 1050 \<longrightarrow>
        length (projectiles (fireProjectile ?o ?a 1150 (1 / 2) (fireProjectile ?o ?a 1050 (1 / 2) ?s)))
          = length (projectiles ?s) + 2"
    by blast
  then show False
    by (simp add: fire_count fire_last initialState_def FIRE_RATE_def)
qed

text \<open>C6. Along runs whose \<open>Math.random()\<close> values lie in the interval from 0
  (included) to 1 (excluded): a shot that passes the gate leaves, after its frame, a
  projectile in the active list with a fresh identifier and with start time \<open>T\<close> the
  clock at the render that mounts it. A projectile of the active list with start time
  \<open>T\<close> is still in the list after a further run of frames exactly when every clock
  sample \<open>t\<close> of the projectile callbacks in that run has \<open>t - T\<close> at most the
  lifetime. So it is present at every sampled time up to and including
  \<open>T + PROJECTILE_LIFETIME\<close>, and absent from the first sample greater than
  \<open>T + PROJECTILE_LIFETIME\<close> on; at the boundary itself it is still present.\<close>

theorem projectile_lifetime:
  assumes "\<forall>f \<in> set fs. 0 \<le> rnd f \<and> rnd f < 1"
    and "s = run g L fs initialState"
    and "\<forall>f \<in> set gs. 0 \<le> rnd f \<and> rnd f < 1"
  shows
    "(fire (input f) \<and> FIRE_RATE \<le> fireNow f - lastFireTime s \<and> 0 \<le> rnd f \<longrightarrow>
        (\<exists>p \<in> set (projectiles (animationFrame g L f s)).
            pid p = fireNow f + rnd f \<and> startTime p = Some (renderNow f))) \<and>
     (p \<in> set (projectiles s) \<and> startTime p = Some t0 \<longrightarrow>
        (pid p \<in> pid ` set (projectiles (run g L gs s))) =
        (\<forall>f \<in> set gs. projNow f - t0 \<le> PROJECTILE_LIFETIME))"
proof -
  have inv: "projInv s" unfolding assms(2) by (rule projInv_run [OF assms(1)])
  have "\<exists>p \<in> set (projectiles (animationFrame g L f s)).
            pid p = fireNow f + rnd f \<and> startTime p = Some (renderNow f)"
    if "fire (input f) \<and> FIRE_RATE \<le> fireNow f - lastFireTime s \<and> 0 \<le> rnd f"
    using frame_mounts_new [OF inv, of f g L] that by blast
  moreover have "(pid p \<in> pid ` set (projectiles (run g L gs s))) =
        (\<forall>f \<in> set gs. projNow f - t0 \<le> PROJECTILE_LIFETIME)"
    if "p \<in> set (projectiles s) \<and> startTime p = Some t0"
  proof -
    from that have m: "p \<in> set (projectiles s)" and st: "startTime p = Some t0" by simp_all
    have rt: "if \<forall>f \<in> set gs. projNow f - t0 \<le> PROJECTILE_LIFETIME
       then \<exists>q' \<in> set (projectiles (run g L gs s)). pid q' = pid p \<and> startTime q' = Some t0
       else pid p \<notin> pid ` set (projectiles (run g L gs s))"
      using run_tracks [OF inv m st assms(3), of g L] by simp
    show ?thesis
    proof (cases "\<forall>f \<in> set gs. projNow f - t0 \<le> PROJECTILE_LIFETIME")
      case True
      then obtain q' where q': "q' \<in> set (projectiles (run g L gs s))" "pid q' = pid p"
        using rt by auto
      have "pid p \<in> pid ` set (projectiles (run g L gs s))"
        using q'(2) [symmetric] q'(1) by (rule image_eqI)
      then show ?thesis using True by simp
    next
      case False
      then show ?thesis using rt by simp
    qed
  qed
  ultimately show ?thesis by blast
qed


theorem projectile_lifetime_witness:
  "fire (input (sampleFrame 1000 (1 / 60) (idleInput\<lparr>fire := True\<rparr>))) \<and>
   FIRE_RATE \<le> fireNow (sampleFrame 1000 (1 / 60) (idleInput\<lparr>fire := True\<rparr>))
                  - lastFireTime initialState \<and>
   0 \<le> rnd (sampleFrame 1000 (1 / 60) (idleInput\<lparr>fire := True\<rparr>)) \<and>
   rnd (sampleFrame 1000 (1 / 60) (idleInput\<lparr>fire := True\<rparr>)) < 1 \<and>
   (\<exists>p \<in> set (projectiles (run straightPath 1000
        [sampleFrame 1000 (1 / 60) (idleInput\<lparr>fire := True\<rparr>)] initialState)).
      pid p = 1000 + 1 / 2 \<and> startTime p = Some 1000) \<and>
   1000 + 1 / 2 \<in> pid ` set (projectiles (run straightPath 1000
        [sampleFrame 2000 (1 / 60) idleInput, sampleFrame 3000 (1 / 60) idleInput]
        (run straightPath 1000
           [sampleFrame 1000 (1 / 60) (idleInput\<lparr>fire := True\<rparr>)] initialState))) \<and>
   1000 + 1 / 2 \<notin> pid ` set (projectiles (run straightPath 1000
        [sampleFrame 2000 (1 / 60) idleInput, sampleFrame 3001 (1 / 60) idleInput]
        (run straightPath 1000
           [sampleFrame 1000 (1 / 60) (idleInput\<lparr>fire := True\<rparr>)] initialState)))"
proof -
  let ?F = "sampleFrame 1000 (1 / 60) (idleInput\<lparr>fire := True\<rparr>)"
  let ?s = "run straightPath 1000 [?F] initialState"
  let ?in = "[sampleFrame 2000 (1 / 60) idleInput, sampleFrame 3000 (1 / 60) idleInput]"
  let ?out = "[sampleFrame 2000 (1 / 60) idleInput, sampleFrame 3001 (1 / 60) idleInput]"
  have h: "fire (input ?F)" "FIRE_RATE \<le> fireNow ?F - lastFireTime initialState"
    "0 \<le> rnd ?F" "rnd ?F < 1"
    by (simp_all add: sampleFrame_fields idleInput_def initialState_def FIRE_RATE_def)
  have r0: "\<forall>f \<in> set ([]::frame list). 0 \<le> rnd f \<and> rnd f < 1" by simp
  have r1: "\<forall>f \<in> set [?F]. 0 \<le> rnd f \<and> rnd f < 1" by (simp add: sampleFrame_fields)
  have rin: "\<forall>f \<in> set ?in. 0 \<le> rnd f \<and> rnd f < 1" by (simp add: sampleFrame_fields)
  have rout: "\<forall>f \<in> set ?out. 0 \<le> rnd f \<and> rnd f < 1" by (simp add: sampleFrame_fields)
  have s: "?s = animationFrame straightPath 1000 ?F initialState"
    by (simp add: run_Cons run_Nil)
  have "\<exists>p \<in> set (projectiles (animationFrame straightPath 1000 ?F initialState)).
      pid p = fireNow ?F + rnd ?F \<and> startTime p = Some (renderNow ?F)"
    using projectile_lifetime [where s = initialState and g = straightPath and L = 1000
        and f = ?F, OF r0 _ rin] h
    by (simp add: run_Nil)
  then obtain p where p: "p \<in> set (projectiles ?s)" "pid p = 1000 + 1 / 2" "startTime p = Some 1000"
    unfolding s by (auto simp add: sampleFrame_fields)
  have "(pid p \<in> pid ` set (projectiles (run straightPath 1000 ?in ?s))) =
        (\<forall>f \<in> set ?in. projNow f - 1000 \<le> PROJECTILE_LIFETIME)"
    using projectile_lifetime [where g = straightPath and L = 1000, OF r1 refl rin] p(1,3)
    by blast
  then have a: "1000 + 1 / 2 \<in> pid ` set (projectiles (run straightPath 1000 ?in ?s))"
    unfolding p(2) by (simp add: sampleFrame_fields PROJECTILE_LIFETIME_def)
  have "(pid p \<in> pid ` set (projectiles (run straightPath 1000 ?out ?s))) =
        (\<forall>f \<in> set ?out. projNow f - 1000 \<le> PROJECTILE_LIFETIME)"
    using projectile_lifetime [where g = straightPath and L = 1000, OF r1 refl rout] p(1,3)
    by blast
  then have b: "1000 + 1 / 2 \<notin> pid ` set (projectiles (run straightPath 1000 ?out ?s))"
    unfolding p(2) by (simp add: sampleFrame_fields PROJECTILE_LIFETIME_def)
  show ?thesis using h p a b by blast
qed

theorem projectile_boundary_counterexample:
  "\<not> (\<forall>g L f c p t0.
        p \<in> set (projectiles c) \<and> startTime p = Some t0 \<and>
        t0 + PROJECTILE_LIFETIME \<le> projNow f \<longrightarrow>
        pid p \<notin> pid ` set (projectiles (animationFrame g L f c)))"
proof
  let ?F = "sampleFrame 1000 (1 / 60) (idleInput\<lparr>fire := True\<rparr>)"
  let ?c = "animationFrame straightPath 1000 ?F initialState"
  let ?f = "sampleFrame 3000 (1 / 60) idleInput"
  assume claim: "\<forall>g L f c p t0.
        p \<in> set (projectiles c) \<and> startTime p = Some t0 \<and>
        t0 + PROJECTILE_LIFETIME \<le> projNow f \<longrightarrow>
        pid p \<notin> pid ` set (projectiles (animationFrame g L f c))"
  have r: "0 \<le> rnd ?F" "rnd ?F < 1" by (simp_all add: sampleFrame_fields)
  have "fire (input ?F)" "FIRE_RATE \<le> fireNow ?F - lastFireTime initialState"
    by (simp_all add: sampleFrame_fields idleInput_def initialState_def FIRE_RATE_def)
  from frame_mounts_new [OF projInv_initial r(1) this, of straightPath 1000]
  obtain p where p: "p \<in> set (projectiles ?c)" "startTime p = Some 1000"
    by (auto simp add: sampleFrame_fields)
  have inv: "projInv ?c" by (rule projInv_frame [OF projInv_initial r])
  have edge: "projNow ?f - 1000 \<le> PROJECTILE_LIFETIME" "1000 + PROJECTILE_LIFETIME \<le> projNow ?f"
    by (simp_all add: sampleFrame_fields PROJECTILE_LIFETIME_def)
  from frame_keeps_young [OF inv p edge(1), of straightPath 1000]
  obtain q where q: "q \<in> set (projectiles (animationFrame straightPath 1000 ?f ?c))" "pid q = pid p"
    by auto
  have "pid p \<in> pid ` set (projectiles (animationFrame straightPath 1000 ?f ?c))"
    using q(2) [symmetric] q(1) by (rule image_eqI)
  moreover have "pid p \<notin> pid ` set (projectiles (animationFrame straightPath 1000 ?f ?c))"
    using claim p edge(2) by blast
  ultimately show False by contradiction
qed

text \<open>C7. With a path of positive length and frame deltas that are not negative, the path
  progress lies in the interval from 0 (included) to 1 (excluded) after every run of
  frames from the initial state. One frame adds speed times delta over the path length,
  the speed being the boost speed while the boost is active and the forward speed
  otherwise, and resets the progress to exactly 0 when the sum reaches or exceeds 1; so
  the progress is below 1 after a frame from any state. The ship's position on the
  curve is sampled at the smaller of the progress and 0.999, never above 0.999.\<close>

theorem path_progress_wraps:
  assumes "0 < L" and "\<forall>f \<in> set fs. 0 \<le> delta f"
  shows "0 \<le> splineProgress (run g L fs initialState) \<and>
    splineProgress (run g L fs initialState) < 1 \<and>
    splineProgress (animationFrame g L f c) =
      (let next = splineProgress c +
                  ((if boostActive c then BOOST_SPEED else FORWARD_SPEED) * delta f) / L
       in if next \<ge> 1 then 0 else next) \<and>
    splineProgress (animationFrame g L f c) < 1 \<and>
    splinePosition g c = g (min (splineProgress c) (999 / 1000)) \<and>
    splineSample c \<le> 999 / 1000"
  using run_progress_range [OF assms, of g] frame_progress_eq [of g L f c]
    frame_progress_lt_1 [of g L f c]
  by (simp add: splinePosition_def splineSample_def)

theorem path_progress_wraps_witness:
  "(0::real) < 1000 \<and>
   0 \<le> delta (sampleFrame 5000 1 idleInput) \<and> 0 \<le> delta (sampleFrame 6000 66 idleInput) \<and>
   splineProgress (run straightPath 1000
      [sampleFrame 5000 1 idleInput, sampleFrame 6000 66 idleInput] initialState) = 0 \<and>
   splineProgress (animationFrame straightPath 1000 (sampleFrame 5000 1 idleInput) initialState)
     = 3 / 200 \<and>
   splineSample (initialState\<lparr>splineProgress := 9995 / 10000\<rparr>) = 999 / 1000"
proof -
  have h: "\<forall>f \<in> set [sampleFrame 5000 1 idleInput, sampleFrame 6000 66 idleInput]. 0 \<le> delta f"
    by (simp add: sampleFrame_fields)
  have r: "splineProgress (run straightPath 1000
      [sampleFrame 5000 1 idleInput, sampleFrame 6000 66 idleInput] initialState) = 0"
    by (simp add: run_Cons run_Nil animationFrame_fields gameLoop_fields speedOf_def
        initialState_def sampleFrame_fields idleInput_def CONFIG_defs)
  show ?thesis
    using h r path_progress_wraps [of 1000 "[sampleFrame 5000 1 idleInput, sampleFrame 6000 66 idleInput]"
      straightPath "sampleFrame 5000 1 idleInput" initialState]
    by (simp add: initialState_def sampleFrame_fields CONFIG_defs splineSample_def)
qed

text \<open>C8. Each movement and aim axis on its own takes the analog stick reading
  when its magnitude is at least the deadzone 0.15 (0.15 itself included), on the two
  vertical axes with the sign reversed so that stick-up is positive, and otherwise the
  digital source: the keys, which give -1, 0 or +1, for movement and the pointer for
  aim. The pointer value is viewport-relative, within -1 and 1 for a cursor inside the
  viewport and (0, 0) at its centre. The boost, dodge and fire flags are each the
  disjunction of the key source and the gamepad button source.\<close>

theorem input_merging:
  "moveX (useInputManager k m gp) =
     (if deadzone \<le> \<bar>sx (leftStick gp)\<bar> then sx (leftStick gp) else keysX k) \<and>
   moveY (useInputManager k m gp) =
     (if deadzone \<le> \<bar>sy (leftStick gp)\<bar> then - sy (leftStick gp) else keysY k) \<and>
   aimX (useInputManager k m gp) =
     (if deadzone \<le> \<bar>sx (rightStick gp)\<bar> then sx (rightStick gp) else mouse_x m) \<and>
   aimY (useInputManager k m gp) =
     (if deadzone \<le> \<bar>sy (rightStick gp)\<bar> then - sy (rightStick gp) else mouse_y m) \<and>
   deadzone = 15 / 100 \<and>
   keysX k \<in> {- 1, 0, 1} \<and> keysY k \<in> {- 1, 0, 1} \<and>
   boost (useInputManager k m gp) = (key_boost k \<or> btn_boost gp) \<and>
   dodge (useInputManager k m gp) = (key_dodge k \<or> btn_dodge gp) \<and>
   fire (useInputManager k m gp) = (key_fire k \<or> btn_fire gp) \<and>
   (0 < w \<and> 0 \<le> cx \<and> cx \<le> w \<and> 0 < h \<and> 0 \<le> cy \<and> cy \<le> h \<longrightarrow>
      - 1 \<le> mouse_x (handleMouseMove cx cy w h) \<and> mouse_x (handleMouseMove cx cy w h) \<le> 1 \<and>
      - 1 \<le> mouse_y (handleMouseMove cx cy w h) \<and> mouse_y (handleMouseMove cx cy w h) \<le> 1) \<and>
   (0 < w \<and> 0 < h \<longrightarrow> handleMouseMove (w / 2) (h / 2) w h = \<lparr>mouse_x = 0, mouse_y = 0\<rparr>)"
  using keys_values [of k] pointer_range [of w cx h cy] pointer_centre [of w h]
  by (simp add: useInputManager_def stick_or_digital stick_or_digital_neg deadzone_def)

theorem input_merging_witness:
  "(0::real) < 800 \<and> (0::real) \<le> 200 \<and> (200::real) \<le> 800 \<and> (0::real) < 600 \<and>
   (0::real) \<le> 600 \<and> (600::real) \<le> 600 \<and>
   handleMouseMove 200 600 800 600 = \<lparr>mouse_x = - (1 / 2), mouse_y = - 1\<rparr> \<and>
   handleMouseMove (800 / 2) (600 / 2) 800 600 = \<lparr>mouse_x = 0, mouse_y = 0\<rparr> \<and>
   moveX (useInputManager (noKeys\<lparr>key_left := True\<rparr>) (handleMouseMove 200 600 800 600)
      (restingGamepad\<lparr>leftStick := \<lparr>sx = 1 / 10, sy = 1 / 2\<rparr>\<rparr>)) = - 1 \<and>
   moveY (useInputManager (noKeys\<lparr>key_left := True\<rparr>) (handleMouseMove 200 600 800 600)
      (restingGamepad\<lparr>leftStick := \<lparr>sx = 1 / 10, sy = 1 / 2\<rparr>\<rparr>)) = - (1 / 2) \<and>
   aimX (useInputManager (noKeys\<lparr>key_left := True\<rparr>) (handleMouseMove 200 600 800 600)
      (restingGamepad\<lparr>leftStick := \<lparr>sx = 1 / 10, sy = 1 / 2\<rparr>\<rparr>)) = - (1 / 2)"
proof -
  have h: "(0::real) < 800 \<and> (0::real) \<le> 200 \<and> (200::real) \<le> 800 \<and> (0::real) < 600 \<and>
      (0::real) \<le> 600 \<and> (600::real) \<le> 600" by simp
  have c: "(0::real) < 800 \<and> (0::real) < 600" by simp
  have m: "handleMouseMove 200 600 800 600 = \<lparr>mouse_x = - (1 / 2), mouse_y = - 1\<rparr>"
    by (simp add: handleMouseMove_def)
  note inst = input_merging [of "noKeys\<lparr>key_left := True\<rparr>" "handleMouseMove 200 600 800 600"
      "restingGamepad\<lparr>leftStick := \<lparr>sx = 1 / 10, sy = 1 / 2\<rparr>\<rparr>" 800 200 600 600]
  have centre: "handleMouseMove (800 / 2) (600 / 2) 800 600 = \<lparr>mouse_x = 0, mouse_y = 0\<rparr>"
    using c inst by blast
  have x: "moveX (useInputManager (noKeys\<lparr>key_left := True\<rparr>) (handleMouseMove 200 600 800 600)
      (restingGamepad\<lparr>leftStick := \<lparr>sx = 1 / 10, sy = 1 / 2\<rparr>\<rparr>)) = - 1"
    using inst by (simp add: restingGamepad_def noKeys_def keysX_def)
  have y: "moveY (useInputManager (noKeys\<lparr>key_left := True\<rparr>) (handleMouseMove 200 600 800 600)
      (restingGamepad\<lparr>leftStick := \<lparr>sx = 1 / 10, sy = 1 / 2\<rparr>\<rparr>)) = - (1 / 2)"
    using inst by (simp add: restingGamepad_def noKeys_def keysY_def)
  have a: "aimX (useInputManager (noKeys\<lparr>key_left := True\<rparr>) (handleMouseMove 200 600 800 600)
      (restingGamepad\<lparr>leftStick := \<lparr>sx = 1 / 10, sy = 1 / 2\<rparr>\<rparr>)) = - (1 / 2)"
    using inst by (simp add: restingGamepad_def m)
  show ?thesis using h m centre x y a by blast
qed

theorem input_deadzone_counterexample:
  "\<not> (\<forall>k m gp. moveX (useInputManager k m gp) =
        (if \<bar>sx (leftStick gp)\<bar> > 15 / 100 then sx (leftStick gp) else keysX k)) \<and>
   \<not> (\<forall>k m gp. moveY (useInputManager k m gp) =
        (if \<bar>sy (leftStick gp)\<bar> > 15 / 100 then sy (leftStick gp) else keysY k))"
proof (intro conjI notI)
  assume "\<forall>k m gp. moveX (useInputManager k m gp) =
        (if \<bar>sx (leftStick gp)\<bar> > 15 / 100 then sx (leftStick gp) else keysX k)"
  then have "moveX (useInputManager (noKeys\<lparr>key_left := True\<rparr>) \<lparr>mouse_x = 0, mouse_y = 0\<rparr>
        (restingGamepad\<lparr>leftStick := \<lparr>sx = 15 / 100, sy = 0\<rparr>\<rparr>)) =
      keysX (noKeys\<lparr>key_left := True\<rparr>)"
    by (simp add: restingGamepad_def)
  then show False
    by (simp add: useInputManager_def num_or_def applyDeadzone_def deadzone_def keysX_def
        restingGamepad_def noKeys_def)
next
  assume "\<forall>k m gp. moveY (useInputManager k m gp) =
        (if \<bar>sy (leftStick gp)\<bar> > 15 / 100 then sy (leftStick gp) else keysY k)"
  then have "moveY (useInputManager noKeys \<lparr>mouse_x = 0, mouse_y = 0\<rparr>
        (restingGamepad\<lparr>leftStick := \<lparr>sx = 0, sy = 1 / 2\<rparr>\<rparr>)) = 1 / 2"
    by (simp add: restingGamepad_def)
  then show False
    by (simp add: useInputManager_def num_or_def applyDeadzone_def deadzone_def
        restingGamepad_def noKeys_def)
qed

text \<open>C9. \<open>createLevelSpline\<close> takes no input and has no failing branch: it
  always returns the curve built from its ten fixed control points (ten is at least
  two), open, of type catmullrom, with tension 0.5, and never an \<open>InvalidPathError\<close>.
  The curve constructor it calls accepts every list of points, also the empty one.\<close>

theorem level_spline_always_built:
  "createLevelSpline =
     Inr \<lparr>points = levelPoints, closed = False, curveType = ''catmullrom'', tension = 1 / 2\<rparr> \<and>
   length levelPoints = 10 \<and> 2 \<le> length levelPoints \<and>
   createLevelSpline \<noteq> Inl InvalidPathError \<and>
   (\<forall>ps. \<exists>curve. new_CatmullRomCurve3 ps False ''catmullrom'' (1 / 2) = Inr curve \<and>
      points curve = ps)"
  by (simp add: createLevelSpline_def new_CatmullRomCurve3_def levelPoints_def)

theorem path_construction_counterexample:
  "\<not> (\<forall>ps. length ps < 2 \<longrightarrow>
        new_CatmullRomCurve3 ps False ''catmullrom'' (1 / 2) = Inl InvalidPathError)"
proof
  assume "\<forall>ps. length ps < 2 \<longrightarrow>
        new_CatmullRomCurve3 ps False ''catmullrom'' (1 / 2) = Inl InvalidPathError"
  then have "new_CatmullRomCurve3 [] False ''catmullrom'' (1 / 2) = Inl InvalidPathError"
    by simp
  then show False by (simp add: new_CatmullRomCurve3_def)
qed

text \<open>C10. In every frame for which a callback was supplied, the game loop hands
  it an object of exactly four entries: \<open>position\<close> (the ship position), \<open>isInvulnerable\<close>,
  \<open>boostActive\<close> and \<open>speed\<close> (the speed state of the last render, which one frame later
  is the boost speed or the forward speed according to the boost flag); along a run the
  reported invulnerability is the rolling flag. Without a callback nothing is emitted.
  Orientation and the projectile list are not part of the object.\<close>

theorem state_report_fields:
  "reportState True g c =
     Some [(''position'', Vec (shipPosition g c)),
           (''isInvulnerable'', Bool (isInvulnerable c)),
           (''boostActive'', Bool (boostActive c)),
           (''speed'', Num (currentSpeed c))] \<and>
   map fst (the (reportState True g c)) =
     [''position'', ''isInvulnerable'', ''boostActive'', ''speed''] \<and>
   reportState False g c = None \<and>
   map_of (the (reportState True g (animationFrame g L f c))) ''speed'' =
     Some (Num (if boostActive c then BOOST_SPEED else FORWARD_SPEED)) \<and>
   map_of (the (reportState True g (run g L fs initialState))) ''isInvulnerable'' =
     Some (Bool (isRolling (run g L fs initialState)))"
  using abilityInv_run [of g L fs]
  by (simp add: reportState_def frame_currentSpeed abilityInv_def)

theorem state_report_counterexample:
  "\<exists>snapshot. reportState True straightPath initialState = Some snapshot \<and>
     length snapshot = 4 \<and>
     ''orientation'' \<notin> fst ` set snapshot \<and> ''rotation'' \<notin> fst ` set snapshot \<and>
     ''projectiles'' \<notin> fst ` set snapshot"
  by (simp add: reportState_def)

end
